theory Spec2Isabelle
  imports Complex_Main
begin

section \<open>Token amounts\<close>

text \<open>
  The step definitions receive token amounts as JavaScript values of type
  \<^verbatim>\<open>number | bigint\<close>.  A \<^verbatim>\<open>number\<close> is a finite double; it is modelled by the
  rational it denotes (every finite double is a rational), a \<^verbatim>\<open>bigint\<close> by an
  integer.  \<^verbatim>\<open>NaN\<close> and the infinities are outside the model.
\<close>

datatype js_amount = JsNumber rat | JsBigInt int

definition Number_isInteger :: "rat \<Rightarrow> bool" where
  "Number_isInteger q = (of_int \<lfloor>q\<rfloor> = q)"

definition Math_round :: "rat \<Rightarrow> int" where
  \<comment> \<open>\<^verbatim>\<open>Math.round\<close>: the nearest integer, a tie going up.\<close>
  "Math_round q = \<lfloor>q + 1 / 2\<rfloor>"

text \<open>
  \<^verbatim>\<open>Number(x)\<close> of a \<^verbatim>\<open>bigint\<close> and \<^verbatim>\<open>Long.toNumber()\<close> give the double nearest
  to the integer, a tie going to the even significand.  The result is again an integer, so
  the conversion is a function on integers: exact up to 53 binary digits, and above that the
  low digits are rounded away.  (The overflow to infinity beyond \<open>2^1024\<close> is outside
  the model.)
\<close>

fun bitLength :: "nat \<Rightarrow> nat" where
  "bitLength n = (if n = 0 then 0 else Suc (bitLength (n div 2)))"

declare bitLength.simps [simp del]

definition toNumber :: "int \<Rightarrow> int" where
  "toNumber n =
     (let a = nat \<bar>n\<bar>; k = bitLength a
      in if k \<le> 53 then n
         else
           let e = k - 53;
               q = a div 2 ^ e;
               r = a mod 2 ^ e;
               half = 2 ^ (e - 1);
               q' = (if half < r \<or> (r = half \<and> odd q) then q + 1 else q)
           in sgn n * int (q' * 2 ^ e))"

text \<open>
  An arithmetic operation on doubles gives the double nearest to the exact result, a tie
  going to the even significand.  \<open>roundToDouble\<close> is that rounding of a rational: the
  result keeps 53 binary digits, counted from the leading one, and no digit below
  \<open>2^-1074\<close>, the spacing of the subnormal doubles.  (Again without the overflow to
  infinity.)
\<close>

definition floorLog2 :: "rat \<Rightarrow> int" where
  \<comment> \<open>For \<open>0 < x\<close>, the exponent \<open>k\<close> with \<open>2^k \<le> x < 2^(k+1)\<close>.\<close>
  "floorLog2 x =
     (if 1 \<le> x then int (bitLength (nat \<lfloor>x\<rfloor>)) - 1
      else - int (bitLength (nat (\<lceil>1 / x\<rceil> - 1))))"

definition scaleBy :: "rat \<Rightarrow> int \<Rightarrow> rat" where
  \<comment> \<open>\<open>x\<close> times two to the power \<open>e\<close>\<close>
  "scaleBy x e = (if 0 \<le> e then x * 2 ^ nat e else x / 2 ^ nat (- e))"

definition roundToDouble :: "rat \<Rightarrow> rat" where
  "roundToDouble x =
     (if x = 0 then 0
      else
        let a = \<bar>x\<bar>;
            e = max (floorLog2 a - 52) (- 1074);
            s = scaleBy a (- e);
            q = \<lfloor>s\<rfloor>;
            r = s - of_int q;
            q' = (if 1 / 2 < r \<or> (r = 1 / 2 \<and> odd q) then q + 1 else q)
        in sgn x * scaleBy (of_int q') e)"

text \<open>
  \<^verbatim>\<open>adjustForDecimals\<close> (helper of the step definitions):
  \<^verbatim>\<open>
  const base = BigInt(10 ** decimals);
  if (typeof amount === 'number' && !Number.isInteger(amount)) {
      return BigInt(Math.round(amount * (10 ** decimals)));
  }
  return BigInt(amount) * base;
  \<close>
  \<^verbatim>\<open>10 ** decimals\<close> is computed in doubles: it is taken to be the double nearest
  to the power of ten, which is the power itself only as long as that is a double.  (Where
  the power is no double, an engine is free to return a neighbour of the nearest double.)
  For a fractional \<^verbatim>\<open>number\<close> the product is a product of doubles, rounded to a
  double before \<^verbatim>\<open>Math.round\<close>.  The decimals of a token are a natural number.
\<close>

fun adjustForDecimals :: "js_amount \<Rightarrow> nat \<Rightarrow> int" where
  "adjustForDecimals (JsNumber q) decimals =
     (let base = toNumber (10 ^ decimals)
      in if \<not> Number_isInteger q
         then Math_round (roundToDouble (q * of_int (toNumber (10 ^ decimals))))
         else \<lfloor>q\<rfloor> * base)"
| "adjustForDecimals (JsBigInt n) decimals =
     (let base = toNumber (10 ^ decimals) in n * base)"

section \<open>The ledger behind the step definitions\<close>

text \<open>
  The step definitions hold no balances of their own: every query and every transaction is
  sent through the SDK client to the ledger.  The ledger's side of those calls is not part
  of the repository's sources; it is modelled here from the specification's description of
  the Ledger State Store, the Token Registry and the Transfer Engine.  Amounts are integers
  in the smallest unit.  Identifiers are allocated in order of creation, so an identifier is
  the position of its account or token in the ledger.
\<close>

type_synonym account_id = nat
type_synonym token_id = nat

text \<open>
  The error kinds of the specification, and three of the step definitions:
  \<open>ContextMissing\<close> for an \<^verbatim>\<open>assert.ok\<close> on a field of the scenario context,
  \<open>AssertionFailed\<close> for any other failed assertion, \<open>SdkError\<close> for an error that the
  SDK throws before anything is sent (a signature on a transaction that is not frozen, a
  token identifier that is undefined).  The ledger's statuses seen by the
  source map to the specification's kinds: \<^verbatim>\<open>TOKEN_ALREADY_ASSOCIATED_TO_ACCOUNT\<close> is
  \<open>AlreadyAssociated\<close>, \<^verbatim>\<open>TOKEN_HAS_NO_SUPPLY_KEY\<close> is \<open>NoMintAuthority\<close>; the assertion
  messages "Multi-transfer amounts unbalanced" and "Balance before transaction not recorded
  for fee check." are \<open>Unbalanced\<close> and \<open>NoSnapshot\<close>.
\<close>

datatype error =
    NotFound | InsufficientFunds | NotAssociated | AlreadyAssociated | InvalidConfig
  | NoMintAuthority | SupplyCapExceeded | Unbalanced | MissingSignature | NoSnapshot
  | ContextMissing | AssertionFailed | SdkError

datatype asset = Native | Token token_id

type_synonym entry = "account_id \<times> asset \<times> int"

datatype supply_policy = Infinite | Finite int

record token =
  tokenName :: string
  tokenSymbol :: string
  decimalPrecision :: nat
  supplyPolicy :: supply_policy
  treasury :: account_id
  mintAuthority :: "account_id option"
  totalSupply :: int

record token_config =
  cfgName :: string
  cfgSymbol :: string
  cfgDecimals :: nat
  initialSupply :: int
  cfgSupplyPolicy :: supply_policy
  cfgTreasury :: account_id
  cfgMintAuthority :: "account_id option"

record account =
  hbar :: int
  tokenBalance :: "token_id \<Rightarrow> int"

record ledger =
  accounts :: "account list"
  tokens :: "token list"
  associations :: "(account_id \<times> token_id) set"
  transactionFee :: int

record pendingTransfer =
  pendingEntries :: "entry list"
  mustSign :: "account_id set"

definition accountExists :: "ledger \<Rightarrow> account_id \<Rightarrow> bool" where
  \<comment> \<open>Modelled from the spec: an account exists once it has been allocated.\<close>
  "accountExists L a = (a < length (accounts L))"

definition tokenExists :: "ledger \<Rightarrow> token_id \<Rightarrow> bool" where
  \<comment> \<open>Modelled from the spec: a token exists once it has been allocated.\<close>
  "tokenExists L t = (t < length (tokens L))"

definition emptyLedger :: "int \<Rightarrow> ledger" where
  \<comment> \<open>Modelled from the spec: the ledger at its initialisation, with the fee of a transfer.\<close>
  "emptyLedger fee = \<lparr>accounts = [], tokens = [], associations = {}, transactionFee = fee\<rparr>"

subsection \<open>Ledger State Store\<close>

definition createAccount :: "int \<Rightarrow> ledger \<Rightarrow> error + (account_id \<times> ledger)" where
  \<comment> \<open>Modelled from the spec: the ledger's account creation is not in the sources.  The
      specification names no error kind for a negative starting balance; \<open>InvalidConfig\<close>
      stands for it.\<close>
  "createAccount initialHbar L =
     (if initialHbar < 0 then Inl InvalidConfig
      else Inr (length (accounts L),
                L\<lparr>accounts := accounts L @ [\<lparr>hbar = initialHbar, tokenBalance = (\<lambda>t. 0)\<rparr>]\<rparr>))"

definition getHbarBalance :: "account_id \<Rightarrow> ledger \<Rightarrow> error + int" where
  \<comment> \<open>Modelled from the spec: the ledger's balance lookup is not in the sources.\<close>
  "getHbarBalance a L =
     (if accountExists L a then Inr (hbar (accounts L ! a)) else Inl NotFound)"

definition ledgerTokenBalance :: "account_id \<Rightarrow> token_id \<Rightarrow> ledger \<Rightarrow> error + int" where
  \<comment> \<open>Modelled from the spec: the Ledger State Store's \<^verbatim>\<open>getTokenBalance\<close> is not in the
      sources (the helper of that name in the step definitions is \<open>getTokenBalance\<close>
      below).  \<open>NotFound\<close> for an identifier that was never allocated.\<close>
  "ledgerTokenBalance a t L =
     (if \<not> (accountExists L a \<and> tokenExists L t) then Inl NotFound
      else if (a, t) \<in> associations L \<or> treasury (tokens L ! t) = a
           then Inr (tokenBalance (accounts L ! a) t)
      else Inl NotAssociated)"

definition addHbar :: "account_id \<Rightarrow> int \<Rightarrow> ledger \<Rightarrow> ledger" where
  \<comment> \<open>Modelled from the spec: a credit (or, for a negative amount, a debit) of HBAR, before
      the check of the resulting balance.\<close>
  "addHbar a d L =
     L\<lparr>accounts := (accounts L)[a := (accounts L ! a)\<lparr>hbar := hbar (accounts L ! a) + d\<rparr>]\<rparr>"

definition addToken :: "account_id \<Rightarrow> token_id \<Rightarrow> int \<Rightarrow> ledger \<Rightarrow> ledger" where
  \<comment> \<open>Modelled from the spec: the same for the balance of a token.\<close>
  "addToken a t d L =
     L\<lparr>accounts := (accounts L)[a := (accounts L ! a)
         \<lparr>tokenBalance := (tokenBalance (accounts L ! a))(t := tokenBalance (accounts L ! a) t + d)\<rparr>]\<rparr>"

subsection \<open>Token Registry\<close>

definition createToken :: "token_config \<Rightarrow> ledger \<Rightarrow> error + (token_id \<times> ledger)" where
  \<comment> \<open>Modelled from the spec: the ledger's token creation is not in the sources.
      \<open>NotFound\<close> for a treasury that was never allocated.\<close>
  "createToken cfg L =
     (if (case cfgSupplyPolicy cfg of Finite m \<Rightarrow> m < initialSupply cfg | Infinite \<Rightarrow> False)
      then Inl InvalidConfig
      else if \<not> accountExists L (cfgTreasury cfg) then Inl NotFound
      else
        let tid = length (tokens L);
            tk = \<lparr>tokenName = cfgName cfg, tokenSymbol = cfgSymbol cfg,
                  decimalPrecision = cfgDecimals cfg, supplyPolicy = cfgSupplyPolicy cfg,
                  treasury = cfgTreasury cfg, mintAuthority = cfgMintAuthority cfg,
                  totalSupply = initialSupply cfg\<rparr>;
            tr = accounts L ! cfgTreasury cfg
        in Inr (tid,
                L\<lparr>accounts := (accounts L)[cfgTreasury cfg :=
                       tr\<lparr>tokenBalance := (tokenBalance tr)(tid := initialSupply cfg)\<rparr>],
                  tokens := tokens L @ [tk]\<rparr>))"

definition associate :: "account_id \<Rightarrow> token_id \<Rightarrow> ledger \<Rightarrow> error + ledger" where
  \<comment> \<open>Modelled from the spec: the ledger's association is not in the sources.\<close>
  "associate a t L =
     (if (a, t) \<in> associations L then Inl AlreadyAssociated
      else Inr (L\<lparr>associations := insert (a, t) (associations L)\<rparr>))"

definition mint :: "token_id \<Rightarrow> int \<Rightarrow> ledger \<Rightarrow> error + ledger" where
  \<comment> \<open>Modelled from the spec: the ledger's minting is not in the sources.  \<open>NotFound\<close>
      for a token that was never allocated.\<close>
  "mint t amount L =
     (if \<not> tokenExists L t then Inl NotFound
      else
        let tk = tokens L ! t
        in if mintAuthority tk = None then Inl NoMintAuthority
           else if (case supplyPolicy tk of
                      Finite m \<Rightarrow> m < totalSupply tk + amount | Infinite \<Rightarrow> False)
                then Inl SupplyCapExceeded
           else Inr (addToken (treasury tk) t amount
                       (L\<lparr>tokens := (tokens L)[t := tk\<lparr>totalSupply := totalSupply tk + amount\<rparr>]\<rparr>)))"

subsection \<open>Transfer Engine\<close>

definition deltaSum :: "entry list \<Rightarrow> asset \<Rightarrow> int" where
  \<comment> \<open>The sum of the signed deltas of one asset in an entry list.\<close>
  "deltaSum es s = sum_list (map (\<lambda>(a, s', d). if s' = s then d else 0) es)"

definition signersOf :: "entry list \<Rightarrow> account_id set" where
  \<comment> \<open>Modelled from the spec: the accounts with a negative entry.\<close>
  "signersOf es = set (map fst (filter (\<lambda>(a, s, d). d < 0) es))"

definition buildTransfer :: "entry list \<Rightarrow> error + pendingTransfer" where
  \<comment> \<open>Modelled from the spec: the Transfer Engine's validation is not in the sources (the
      sources build SDK transactions; their own checks are modelled below).\<close>
  "buildTransfer es =
     (if list_all (\<lambda>(a, s, d). deltaSum es s = 0) es
      then Inr \<lparr>pendingEntries = es, mustSign = signersOf es\<rparr>
      else Inl Unbalanced)"

definition requiredSigners :: "pendingTransfer \<Rightarrow> account_id set" where
  \<comment> \<open>Modelled from the spec: the set of accounts kept with the pending transfer.\<close>
  "requiredSigners p = mustSign p"

fun applyEntry :: "entry \<Rightarrow> ledger \<Rightarrow> ledger" where
  \<comment> \<open>Modelled from the spec: one entry of a transfer applied to its account.\<close>
  "applyEntry (a, Native, d) L = addHbar a d L"
| "applyEntry (a, Token t, d) L = addToken a t d L"

definition entryExists :: "ledger \<Rightarrow> entry \<Rightarrow> bool" where
  \<comment> \<open>Modelled from the spec: the account and the token of an entry exist.\<close>
  "entryExists L e =
     (case e of (a, s, d) \<Rightarrow>
        accountExists L a \<and> (case s of Native \<Rightarrow> True | Token t \<Rightarrow> tokenExists L t))"

definition receiverAssociated :: "ledger \<Rightarrow> entry \<Rightarrow> bool" where
  \<comment> \<open>Modelled from the spec: an account that receives a token is associated with it or
      is its treasury.\<close>
  "receiverAssociated L e =
     (case e of (a, s, d) \<Rightarrow>
        (case s of
           Native \<Rightarrow> True
         | Token t \<Rightarrow>
             (if 0 < d then (a, t) \<in> associations L \<or> treasury (tokens L ! t) = a else True)))"

definition balanceNonNegative :: "ledger \<Rightarrow> entry \<Rightarrow> bool" where
  \<comment> \<open>Modelled from the spec: the balance that an entry touched is not negative.\<close>
  "balanceNonNegative L e =
     (case e of (a, s, d) \<Rightarrow>
        (case s of
           Native \<Rightarrow> 0 \<le> hbar (accounts L ! a)
         | Token t \<Rightarrow> 0 \<le> tokenBalance (accounts L ! a) t))"

definition submit ::
  "pendingTransfer \<Rightarrow> account_id \<Rightarrow> account_id set \<Rightarrow> ledger \<Rightarrow> error + ledger" where
  \<comment> \<open>Modelled from the spec: the Transfer Engine's submission is not in the sources.  The
      checks stand in the order in which the specification lists them; \<open>NotFound\<close> for an
      identifier that was never allocated.  The entries and the fee are applied together,
      and the result is kept only if no balance involved went negative.\<close>
  "submit p payer sigs L =
     (if \<not> requiredSigners p \<subseteq> sigs \<union> {payer} then Inl MissingSignature
      else if \<not> (accountExists L payer \<and> list_all (entryExists L) (pendingEntries p))
           then Inl NotFound
      else if \<not> list_all (receiverAssociated L) (pendingEntries p) then Inl NotAssociated
      else
        let L' = addHbar payer (- transactionFee L) (fold applyEntry (pendingEntries p) L)
        in if 0 \<le> hbar (accounts L' ! payer) \<and> list_all (balanceNonNegative L') (pendingEntries p)
           then Inr L'
           else Inl InsufficientFunds)"

subsection \<open>Committed operations\<close>

datatype operation =
    CreateAccount int
  | CreateToken token_config
  | Mint token_id int
  | Associate account_id token_id
  | Transfer "entry list" account_id "account_id set"

fun commit :: "operation \<Rightarrow> ledger \<Rightarrow> error + ledger" where
  \<comment> \<open>Modelled from the spec: the mutating operations of the ledger under one type; a
      transfer is built and then submitted.\<close>
  "commit (CreateAccount h) L = map_sum id snd (createAccount h L)"
| "commit (CreateToken cfg) L = map_sum id snd (createToken cfg L)"
| "commit (Mint t amount) L = mint t amount L"
| "commit (Associate a t) L = associate a t L"
| "commit (Transfer es payer sigs) L =
     (case buildTransfer es of Inl e \<Rightarrow> Inl e | Inr p \<Rightarrow> submit p payer sigs L)"

definition stateAfter :: "ledger \<Rightarrow> error + ledger \<Rightarrow> ledger" where
  \<comment> \<open>Modelled from the spec: a failed operation leaves the ledger as it was.\<close>
  "stateAfter L r = (case r of Inl e \<Rightarrow> L | Inr L' \<Rightarrow> L')"

definition perform :: "operation \<Rightarrow> ledger \<Rightarrow> ledger" where
  \<comment> \<open>Modelled from the spec: the ledger after an operation, committed or failed.\<close>
  "perform opn L = stateAfter L (commit opn L)"

definition circulating :: "ledger \<Rightarrow> token_id \<Rightarrow> int" where
  \<comment> \<open>The sum of all account balances of a token.\<close>
  "circulating L t = sum_list (map (\<lambda>acc. tokenBalance acc t) (accounts L))"

definition issuesUnits :: "operation \<Rightarrow> bool" where
  \<comment> \<open>The Token Registry operations that put units into circulation.\<close>
  "issuesUnits opn = (case opn of CreateToken cfg \<Rightarrow> True | Mint t amount \<Rightarrow> True | _ \<Rightarrow> False)"

definition ledgerOK :: "ledger \<Rightarrow> bool" where
  \<comment> \<open>The invariant of the ledger: supply and circulation agree for every token, every
      treasury is an account, and nobody holds units of a token that does not exist yet.\<close>
  "ledgerOK L =
     ((\<forall>t < length (tokens L).
          circulating L t = totalSupply (tokens L ! t)
        \<and> accountExists L (treasury (tokens L ! t)))
      \<and> (\<forall>t \<ge> length (tokens L). \<forall>acc \<in> set (accounts L). tokenBalance acc t = 0))"

section \<open>The SDK calls of the step definitions\<close>

text \<open>
  What the source sends through the client, answered by the ledger above.  A key is
  identified with the account it belongs to.
\<close>

record accountBalance =
  hbars :: int
  tokenMap :: "token_id \<rightharpoonup> int"

definition balanceQuery :: "account_id \<Rightarrow> ledger \<Rightarrow> error + accountBalance" where
  \<comment> \<open>Modelled from the spec: \<^verbatim>\<open>new AccountBalanceQuery().setAccountId(a).execute(client)\<close>
      is answered by the ledger; the token map of the answer lists the tokens whose balance
      the Ledger State Store returns for the account.\<close>
  "balanceQuery a L =
     (case getHbarBalance a L of
        Inl e \<Rightarrow> Inl e
      | Inr h \<Rightarrow>
          Inr \<lparr>hbars = h,
               tokenMap = (\<lambda>t. case ledgerTokenBalance a t L of
                                  Inl e \<Rightarrow> None | Inr b \<Rightarrow> Some b)\<rparr>)"

record transferTransaction =
  tokenTransfers :: "entry list"
  frozen :: bool
  signatures :: "account_id list"

definition newTransferTransaction :: transferTransaction where
  "newTransferTransaction = \<lparr>tokenTransfers = [], frozen = False, signatures = []\<rparr>"

definition addTokenTransfer ::
  "token_id \<Rightarrow> account_id \<Rightarrow> int \<Rightarrow> transferTransaction \<Rightarrow> transferTransaction" where
  \<comment> \<open>The entries are kept in the order of the calls.  (The SDK folds two entries of one
      account and token into one; the step definitions add one entry for each account.  The
      SDK keeps an amount as a signed integer of 64 binary digits, and a \<^verbatim>\<open>number\<close>
      beyond that range as the largest or smallest of them: amounts from \<open>2^63\<close> units on
      are outside the model.)\<close>
  "addTokenTransfer t a amount tx = tx\<lparr>tokenTransfers := tokenTransfers tx @ [(a, Token t, amount)]\<rparr>"

definition freezeWith :: "transferTransaction \<Rightarrow> transferTransaction" where
  "freezeWith tx = tx\<lparr>frozen := True\<rparr>"

definition sign :: "account_id \<Rightarrow> transferTransaction \<Rightarrow> error + transferTransaction" where
  \<comment> \<open>The SDK signs a frozen transaction only, and no second time with a key that has
      signed it.\<close>
  "sign k tx =
     (if frozen tx
      then Inr (if k \<in> set (signatures tx) then tx
                else tx\<lparr>signatures := signatures tx @ [k]\<rparr>)
      else Inl SdkError)"

text \<open>
  \<^verbatim>\<open>getSignatures()\<close> gives the signatures of a frozen transaction as a map whose keys
  are the identifiers of the nodes that the transaction was frozen for (the nodes of the
  client, \<^verbatim>\<open>Client.forTestnet()\<close>); the public keys of the signers are one level
  below, in the value of each node.  The step definitions read the keys of that map as
  strings.  The string of an account identifier (\<^verbatim>\<open>0.0.3\<close>) and the string of a
  public key (its hexadecimal encoding) are kept apart by the two constructors.
\<close>

datatype sdkString = AccountIdString nat | PublicKeyString account_id

definition testnetNodes :: "nat list" where
  \<comment> \<open>The node accounts of the test network; which of them a transaction is frozen for
      plays no part below.\<close>
  "testnetNodes = [3, 4, 5, 6, 7, 8, 9]"

definition getSignaturesKeys :: "transferTransaction \<Rightarrow> sdkString list" where
  \<comment> \<open>\<^verbatim>\<open>getSignatures().keys()\<close>, each with \<^verbatim>\<open>toString()\<close>\<close>
  "getSignaturesKeys tx = map AccountIdString testnetNodes"

definition execute :: "transferTransaction \<Rightarrow> account_id \<Rightarrow> ledger \<Rightarrow> error + ledger" where
  \<comment> \<open>Modelled from the spec: \<^verbatim>\<open>tx.execute(client)\<close> followed by \<^verbatim>\<open>getReceipt(client)\<close>,
      which throws unless the status is a success.  The client's operator pays and signs;
      the ledger validates and applies the entries as the Transfer Engine does.\<close>
  "execute tx operator L = commit (Transfer (tokenTransfers tx) operator (set (signatures tx))) L"

section \<open>The step definitions with a deferred submission\<close>

text \<open>
  The scenario context (\<^verbatim>\<open>this\<close>) of the larger step-definition file.  Every step that
  stores an account stores its identifier and its key together, so one field stands for
  both (\<^verbatim>\<open>account1Id\<close> and \<^verbatim>\<open>account1Key\<close>, and so on).  A step is a function on
  the scenario context and the ledger; an error is the exception that ends the scenario.
\<close>

record scenarioContext =
  account1Id :: "account_id option"
  account2Id :: "account_id option"
  account3Id :: "account_id option"
  account4Id :: "account_id option"
  tokenId :: "token_id option"
  tokenDecimals :: "nat option"
  createdTransaction :: "transferTransaction option"
  balanceBefore :: "int option"

type_synonym world = "scenarioContext \<times> ledger"

definition require :: "'a option \<Rightarrow> ('a \<Rightarrow> error + 'b) \<Rightarrow> error + 'b" where
  \<comment> \<open>\<^verbatim>\<open>assert.ok(this.field, ...)\<close>\<close>
  "require x f = (case x of None \<Rightarrow> Inl ContextMissing | Some v \<Rightarrow> f v)"

definition getTokenBalance :: "account_id \<Rightarrow> token_id \<Rightarrow> ledger \<Rightarrow> error + int" where
  \<comment> \<open>The helper \<^verbatim>\<open>getTokenBalance\<close>: a token missing from the answer and a failed query
      both give 0.  (A \<^verbatim>\<open>Long\<close> is an object, so the test \<^verbatim>\<open>tokenBalance ? ... : ...\<close>
      only asks whether the token is in the map.)\<close>
  "getTokenBalance accountId tid L =
     (case balanceQuery accountId L of
        Inr balance \<Rightarrow>
          (case tokenMap balance tid of
             Some units \<Rightarrow> Inr (toNumber units)
           | None \<Rightarrow> Inr 0)
      | Inl e \<Rightarrow> Inr 0)"

definition associateToken :: "account_id \<Rightarrow> token_id \<Rightarrow> ledger \<Rightarrow> error + ledger" where
  \<comment> \<open>The helper \<^verbatim>\<open>associateToken\<close>: a balance check first, whose success is taken for an
      existing association; otherwise the association is sent, and of its errors only
      \<^verbatim>\<open>TOKEN_ALREADY_ASSOCIATED_TO_ACCOUNT\<close> is caught.\<close>
  "associateToken accountId tid L =
     (case getTokenBalance accountId tid L of
        Inr currentBalanceUnits \<Rightarrow> Inr L
      | Inl e \<Rightarrow>
          (case associate accountId tid L of
             Inr L' \<Rightarrow> Inr L'
           | Inl err \<Rightarrow> if err = AlreadyAssociated then Inr L else Inl err))"


definition createRecipientPaysStep :: "int \<Rightarrow> world \<Rightarrow> error + world" where
  \<comment> \<open>"The second account creates a transaction to transfer (n) HTT tokens to the first
      account": built, frozen and signed by the second account (the sender).\<close>
  "createRecipientPaysStep amountTokens w =
     (case w of (c, L) \<Rightarrow>
        require (account1Id c) (\<lambda>a1.
        require (account2Id c) (\<lambda>a2.
        require (tokenId c) (\<lambda>t.
        require (tokenDecimals c) (\<lambda>dec.
          let amountUnits = adjustForDecimals (JsNumber (of_int amountTokens)) dec;
              transferTx =
                addTokenTransfer t a1 (toNumber amountUnits)
                  (addTokenTransfer t a2 (toNumber (- amountUnits)) newTransferTransaction)
          in case sign a2 (freezeWith transferTx) of
               Inl e \<Rightarrow> Inl e
             | Inr signedTx \<Rightarrow> Inr (c\<lparr>createdTransaction := Some signedTx\<rparr>, L))))))"

definition createMultiPartyStep :: "int \<Rightarrow> int \<Rightarrow> int \<Rightarrow> int \<Rightarrow> world \<Rightarrow> error + world" where
  \<comment> \<open>"A transaction is created to transfer (a) HTT tokens out of the first account, (b)
      out of the second account, (c) into the third account, and (d) into the fourth
      account": the balance check compares the \<^verbatim>\<open>bigint\<close> units, the entries take their
      conversion to \<^verbatim>\<open>number\<close>.\<close>
  "createMultiPartyStep out1Tokens out2Tokens in3Tokens in4Tokens w =
     (case w of (c, L) \<Rightarrow>
        require (account1Id c) (\<lambda>a1.
        require (account2Id c) (\<lambda>a2.
        require (account3Id c) (\<lambda>a3.
        require (account4Id c) (\<lambda>a4.
        require (tokenId c) (\<lambda>t.
        require (tokenDecimals c) (\<lambda>dec.
          let out1Units = adjustForDecimals (JsNumber (of_int out1Tokens)) dec;
              out2Units = adjustForDecimals (JsNumber (of_int out2Tokens)) dec;
              in3Units = adjustForDecimals (JsNumber (of_int in3Tokens)) dec;
              in4Units = adjustForDecimals (JsNumber (of_int in4Tokens)) dec
          in if out1Units + out2Units \<noteq> in3Units + in4Units then Inl Unbalanced
             else
               let transferTx =
                     addTokenTransfer t a4 (toNumber in4Units)
                       (addTokenTransfer t a3 (toNumber in3Units)
                          (addTokenTransfer t a2 (toNumber (- out2Units))
                             (addTokenTransfer t a1 (toNumber (- out1Units))
                                newTransferTransaction)))
               in Inr (c\<lparr>createdTransaction := Some (freezeWith transferTx)\<rparr>, L))))))))"

definition createMultiPartyEqualStep :: "int \<Rightarrow> int \<Rightarrow> int \<Rightarrow> world \<Rightarrow> error + world" where
  \<comment> \<open>"A transaction is created to transfer (a) HTT tokens out of the first and second
      account and (c) HTT tokens into the third account and (d) HTT tokens into the fourth
      account": the balance check is made on the \<^verbatim>\<open>number\<close> conversions, in doubles (the
      doubling is exact, the sum of the two doubles is rounded to a double).\<close>
  "createMultiPartyEqualStep outTokens in3Tokens in4Tokens w =
     (case w of (c, L) \<Rightarrow>
        require (account1Id c) (\<lambda>a1.
        require (account2Id c) (\<lambda>a2.
        require (account3Id c) (\<lambda>a3.
        require (account4Id c) (\<lambda>a4.
        require (tokenId c) (\<lambda>t.
        require (tokenDecimals c) (\<lambda>dec.
          let outUnits = adjustForDecimals (JsNumber (of_int outTokens)) dec;
              in3Units = adjustForDecimals (JsNumber (of_int in3Tokens)) dec;
              in4Units = adjustForDecimals (JsNumber (of_int in4Tokens)) dec
          in if toNumber outUnits * 2 \<noteq> toNumber (toNumber in3Units + toNumber in4Units)
             then Inl Unbalanced
             else
               let transferTx =
                     addTokenTransfer t a4 (toNumber in4Units)
                       (addTokenTransfer t a3 (toNumber in3Units)
                          (addTokenTransfer t a2 (toNumber (- outUnits))
                             (addTokenTransfer t a1 (toNumber (- outUnits))
                                newTransferTransaction)))
               in Inr (c\<lparr>createdTransaction := Some (freezeWith transferTx)\<rparr>, L))))))))"

definition account2Sends :: "scenarioContext \<Rightarrow> transferTransaction \<Rightarrow> bool" where
  \<comment> \<open>The loop over \<^verbatim>\<open>tokenTransfers.get(this.tokenId)\<close>: the second account has a
      negative amount of the scenario's token.\<close>
  "account2Sends c tx =
     (case account2Id c of
        None \<Rightarrow> False
      | Some a2 \<Rightarrow>
          (case tokenId c of
             None \<Rightarrow> False
           | Some t \<Rightarrow> list_ex (\<lambda>(a, s, d). s = Token t \<and> a = a2 \<and> d < 0) (tokenTransfers tx)))"

definition account2KeyFound :: "scenarioContext \<Rightarrow> transferTransaction \<Rightarrow> bool" where
  \<comment> \<open>The loop \<^verbatim>\<open>for (const pubKey of sigMap.keys())\<close> with the test
      \<^verbatim>\<open>pubKey.toString() === this.account2Key.publicKey.toString()\<close>\<close>
  "account2KeyFound c tx =
     (case account2Id c of
        None \<Rightarrow> False
      | Some a2 \<Rightarrow> list_ex (\<lambda>pubKey. pubKey = PublicKeyString a2) (getSignaturesKeys tx))"

text \<open>
  A step that can fail after it has assigned to the scenario context returns, with its
  error, the context and the ledger as they are when the error is thrown.
\<close>

definition submitStep :: "world \<Rightarrow> error \<times> world + world" where
  \<comment> \<open>"The first account submits the transaction".  The first account always pays.  The
      recipient-pays case is looked for among the keys of the signature map of a frozen
      transaction; in that case the payer's balance is recorded first (a failed query is
      ignored).  Otherwise the second account signs when it sends tokens, unless its key is
      found among the same keys (its key is in the context whenever its identifier is, so
      the assertion on the key cannot fail).  An error of the submission is thrown again,
      before the line that clears the stored transaction: that line runs after a success
      only.\<close>
  "submitStep w =
     (case w of (c, L) \<Rightarrow>
        (case createdTransaction c of
           None \<Rightarrow> Inl (ContextMissing, (c, L))
         | Some transactionToSubmit \<Rightarrow>
        (case account1Id c of
           None \<Rightarrow> Inl (ContextMissing, (c, L))
         | Some payerAccountId \<Rightarrow>
          let isRecipientPays =
                (frozen transactionToSubmit \<and> getSignaturesKeys transactionToSubmit \<noteq> []
                   \<and> account2KeyFound c transactionToSubmit);
              c1 = (if isRecipientPays
                    then (case balanceQuery payerAccountId L of
                            Inr b \<Rightarrow> c\<lparr>balanceBefore := Some (hbars b)\<rparr>
                          | Inl e \<Rightarrow> c)
                    else c);
              requiresAcc2Sig = (\<not> isRecipientPays \<and> account2Sends c transactionToSubmit)
          in case (case account2Id c of
                     Some a2 \<Rightarrow>
                       if requiresAcc2Sig \<and> \<not> account2KeyFound c transactionToSubmit
                       then sign a2 transactionToSubmit else Inr transactionToSubmit
                   | None \<Rightarrow> Inr transactionToSubmit) of
               Inl e \<Rightarrow> Inl (e, (c1, L))
             | Inr signedTx \<Rightarrow>
                 (case execute signedTx payerAccountId L of
                    Inl e \<Rightarrow> Inl (e, (c1, L))
                  | Inr L' \<Rightarrow> Inr (c1\<lparr>createdTransaction := None\<rparr>, L')))))"

definition feePaidStep :: "world \<Rightarrow> error + world" where
  \<comment> \<open>"The first account has paid for the transaction fee"\<close>
  "feePaidStep w =
     (case w of (c, L) \<Rightarrow>
        require (account1Id c) (\<lambda>a1.
          case balanceBefore c of
            None \<Rightarrow> Inl NoSnapshot
          | Some before \<Rightarrow>
              (case balanceQuery a1 L of
                 Inl e \<Rightarrow> Inl e
               | Inr balanceAfter \<Rightarrow>
                   if hbars balanceAfter < before
                   then Inr (c\<lparr>balanceBefore := None\<rparr>, L)
                   else Inl AssertionFailed)))"

definition mintFailsStep :: "world \<Rightarrow> error + world" where
  \<comment> \<open>"An attempt to mint tokens fails": the step passes only when the mint is refused
      with \<^verbatim>\<open>TOKEN_HAS_NO_SUPPLY_KEY\<close>; an unexpected success fails the step through
      \<^verbatim>\<open>assert.fail\<close>, whose error the handler's assertion rejects as well.\<close>
  "mintFailsStep w =
     (case w of (c, L) \<Rightarrow>
        require (tokenId c) (\<lambda>t.
        require (account1Id c) (\<lambda>a1.
        require (tokenDecimals c) (\<lambda>dec.
          let amountToMintUnits = adjustForDecimals (JsNumber 1) dec
          in case mint t (toNumber amountToMintUnits) L of
               Inr L' \<Rightarrow> Inl AssertionFailed
             | Inl err \<Rightarrow> if err = NoMintAuthority then Inr (c, L) else Inl AssertionFailed))))"

definition unchangedOnError :: "('w \<Rightarrow> error + 'w) \<Rightarrow> 'w \<Rightarrow> error \<times> 'w + 'w" where
  \<comment> \<open>The other steps assign to the context in their last statement, if at all: at an
      error the context and the ledger are those that the step started with.\<close>
  "unchangedOnError step w = (case step w of Inl e \<Rightarrow> Inl (e, w) | Inr w' \<Rightarrow> Inr w')"

fun runSteps :: "('w \<Rightarrow> error \<times> 'w + 'w) list \<Rightarrow> 'w \<Rightarrow> error \<times> 'w + 'w" where
  \<comment> \<open>The steps of a scenario run in order, and the first error ends the scenario: the
      steps after it are skipped.\<close>
  "runSteps [] w = Inr w"
| "runSteps (step # steps) w =
     (case step w of Inl failure \<Rightarrow> Inl failure | Inr w' \<Rightarrow> runSteps steps w')"

section \<open>The step definitions with an immediate submission\<close>

text \<open>
  The step definitions of \<^verbatim>\<open>src/features/step_definitions/token-service.ts\<close> keep the four
  accounts in constants of the module and the token and the last receipt in variables.
\<close>

record moduleAccounts =
  firstAccountId :: account_id
  secondAccountId :: account_id
  thirdAccountId :: account_id
  fourthAccountId :: account_id

record moduleState =
  moduleTokenId :: "token_id option"
  receipt :: bool

type_synonym moduleWorld = "moduleState \<times> ledger"

definition associateTokenNow :: "account_id \<Rightarrow> token_id \<Rightarrow> ledger \<Rightarrow> error + ledger" where
  \<comment> \<open>\<^verbatim>\<open>associateToken\<close> of this file: the association is always sent.\<close>
  "associateTokenNow accountId tid L = associate accountId tid L"

definition ignoreAlreadyAssociated :: "ledger \<Rightarrow> error + ledger \<Rightarrow> error + ledger" where
  \<comment> \<open>The handler around every call of \<^verbatim>\<open>associateToken\<close> in this file:
      \<^verbatim>\<open>catch (err) { if (!err.toString().includes("TOKEN_ALREADY_ASSOCIATED_TO_ACCOUNT")) throw err; }\<close>\<close>
  "ignoreAlreadyAssociated L r =
     (case r of
        Inl err \<Rightarrow> if err \<noteq> AlreadyAssociated then Inl err else Inr L
      | Inr L' \<Rightarrow> Inr L')"



definition positiveBalanceStep :: "moduleAccounts \<Rightarrow> moduleWorld \<Rightarrow> error + moduleWorld" where
  \<comment> \<open>"The first account has paid for the transaction fee" in this file:
      \<^verbatim>\<open>assert.ok(balance.hbars.toBigNumber().toNumber() > 0)\<close>\<close>
  "positiveBalanceStep m w =
     (case w of (c, L) \<Rightarrow>
        (case balanceQuery (firstAccountId m) L of
           Inl e \<Rightarrow> Inl e
         | Inr balance \<Rightarrow> if 0 < hbars balance then Inr (c, L) else Inl AssertionFailed))"

section \<open>Example scenarios\<close>

text \<open>
  Concrete ledgers and contexts on which the theorems below are instantiated.  The token is
  the fixed-supply token of the feature files: two decimals, no supply key.
\<close>

definition fixedConfig :: "int \<Rightarrow> token_config" where
  "fixedConfig supply =
     \<lparr>cfgName = ''Test Token'', cfgSymbol = ''HTT'', cfgDecimals = 2, initialSupply = supply,
      cfgSupplyPolicy = Finite supply, cfgTreasury = 0, cfgMintAuthority = None\<rparr>"

definition endToEnd :: "operation list" where
  \<comment> \<open>An account with 1000 HBAR creates a finite token of 500 units, a second account is
      associated, and 200 units are transferred to it.\<close>
  "endToEnd =
     [CreateAccount 1000, CreateAccount 0, CreateToken (fixedConfig 500), Associate 1 0,
      Transfer [(0, Token 0, - 200), (1, Token 0, 200)] 0 {}]"

definition fourAccounts :: ledger where
  \<comment> \<open>Four accounts; the first is the treasury of a token of 500.00 HTT.\<close>
  "fourAccounts =
     fold perform
       [CreateAccount 1000, CreateAccount 10, CreateAccount 0, CreateAccount 0,
        CreateToken (fixedConfig 50000)]
       (emptyLedger 1)"

definition associatedSecond :: ledger where
  "associatedSecond = perform (Associate 1 0) fourAccounts"

definition secondFunded :: ledger where
  \<comment> \<open>The second account is associated and holds 10.00 HTT.\<close>
  "secondFunded =
     perform (Transfer [(0, Token 0, - 1000), (1, Token 0, 1000)] 0 {}) associatedSecond"

definition fullContext :: scenarioContext where
  "fullContext =
     \<lparr>account1Id = Some 0, account2Id = Some 1, account3Id = Some 2, account4Id = Some 3,
      tokenId = Some 0, tokenDecimals = Some 2, createdTransaction = None,
      balanceBefore = None\<rparr>"


definition recipientPaysStored :: scenarioContext where
  \<comment> \<open>The context after "The second account creates a transaction to transfer 5 HTT
      tokens to the first account".\<close>
  "recipientPaysStored =
     fullContext\<lparr>createdTransaction := Some
       \<lparr>tokenTransfers = [(1, Token 0, - 500), (0, Token 0, 500)],
        frozen = True, signatures = [1]\<rparr>\<rparr>"

definition firstRepaid :: ledger where
  \<comment> \<open>The second account has sent 5.00 of its 10.00 HTT back; the first account has paid
      for both transfers.\<close>
  "firstRepaid =
     perform (Transfer [(1, Token 0, - 500), (0, Token 0, 500)] 0 {1}) secondFunded"

definition moduleFour :: moduleAccounts where
  "moduleFour =
     \<lparr>firstAccountId = 0, secondAccountId = 1, thirdAccountId = 2, fourthAccountId = 3\<rparr>"

definition moduleStart :: moduleState where
  "moduleStart = \<lparr>moduleTokenId = Some 0, receipt = False\<rparr>"

section \<open>Properties of the amount helpers\<close>

lemma Number_isInteger_of_int [simp]: "Number_isInteger (of_int n)"
  by (simp add: Number_isInteger_def)

lemma Number_isInteger_numerals [simp]:
  "Number_isInteger 0" "Number_isInteger 1" "Number_isInteger (numeral k)"
  "Number_isInteger (- numeral k)"
  by (simp_all add: Number_isInteger_def)

lemma adjustForDecimals_integer_number:
  "adjustForDecimals (JsNumber (of_int n)) decimals = n * toNumber (10 ^ decimals)"
  by simp

lemma bitLength_bound: "n < 2 ^ k \<Longrightarrow> bitLength n \<le> k"
proof (induction n arbitrary: k rule: bitLength.induct)
  case (1 n)
  show ?case
  proof (cases "n = 0")
    case True
    then show ?thesis by (simp add: bitLength.simps)
  next
    case False
    with "1.prems" obtain j where k: "k = Suc j"
      by (cases k) auto
    with "1.prems" have "n div 2 < 2 ^ j" by auto
    with "1.IH" [OF False] have "bitLength (n div 2) \<le> j" by simp
    with False k show ?thesis by (simp add: bitLength.simps [of n])
  qed
qed

lemma toNumber_exact: "\<bar>n\<bar> < 2 ^ 53 \<Longrightarrow> toNumber n = n"
proof -
  assume "\<bar>n\<bar> < 2 ^ 53"
  then have "nat \<bar>n\<bar> < 2 ^ 53"
    by (simp add: nat_less_iff)
  then have "bitLength (nat \<bar>n\<bar>) \<le> 53"
    by (rule bitLength_bound)
  then show ?thesis
    by (simp add: toNumber_def Let_def)
qed

text \<open>
  The base \<^verbatim>\<open>10 ** decimals\<close>.  The powers of ten up to \<open>10^15\<close> have at most 53
  binary digits; those from \<open>10^16\<close> to \<open>10^22\<close> have more, and all the digits that the
  conversion rounds away are zero.  \<open>10^23\<close> is the first power of ten that is not a
  double.
\<close>

lemma power_of_ten_small: "d \<le> 15 \<Longrightarrow> toNumber (10 ^ d) = 10 ^ d"
proof (rule toNumber_exact)
  assume "d \<le> 15"
  then have "(10::int) ^ d \<le> 10 ^ 15"
    by (intro power_increasing) simp_all
  also have "\<dots> < 2 ^ 53"
    by simp
  finally show "\<bar>(10::int) ^ d\<bar> < 2 ^ 53"
    by simp
qed

lemma power_of_ten_large:
  "toNumber (10 ^ 16) = 10 ^ 16" "toNumber (10 ^ 17) = 10 ^ 17" "toNumber (10 ^ 18) = 10 ^ 18"
  "toNumber (10 ^ 19) = 10 ^ 19" "toNumber (10 ^ 20) = 10 ^ 20" "toNumber (10 ^ 21) = 10 ^ 21"
  "toNumber (10 ^ 22) = 10 ^ 22"
  by (simp_all add: toNumber_def bitLength.simps Let_def)

lemma power_of_ten_exact: "d \<le> 22 \<Longrightarrow> toNumber (10 ^ d) = 10 ^ d"
proof -
  assume "d \<le> 22"
  then consider "d \<le> 15" | "d = 16" | "d = 17" | "d = 18" | "d = 19" | "d = 20" | "d = 21"
    | "d = 22"
    by linarith
  then show ?thesis
    by cases (simp_all only: power_of_ten_small power_of_ten_large)
qed

lemma power_of_ten_rounded: "toNumber (10 ^ 23) = 99999999999999991611392"
  by (simp add: toNumber_def bitLength.simps Let_def)

text \<open>
  C10.  For every integer amount (so for every non-negative one), given as a
  \<^verbatim>\<open>bigint\<close> or as an integer-valued \<^verbatim>\<open>number\<close>, and every decimals value from 0 to
  18, \<^verbatim>\<open>adjustForDecimals\<close> returns exactly the amount times ten to the power of the
  decimals, as an unbounded integer: the base computed in doubles is the exact power, and
  the product is a product of integers.  The result is zero exactly when the amount is zero.
\<close>

theorem adjustForDecimals_exact:
  assumes "decimals \<le> 18"
  shows "adjustForDecimals (JsBigInt n) decimals = n * 10 ^ decimals
       \<and> adjustForDecimals (JsNumber (of_int n)) decimals = n * 10 ^ decimals
       \<and> (adjustForDecimals (JsBigInt n) decimals = 0 \<longleftrightarrow> n = 0)
       \<and> (adjustForDecimals (JsNumber (of_int n)) decimals = 0 \<longleftrightarrow> n = 0)"
proof -
  from assms have "toNumber (10 ^ decimals) = 10 ^ decimals"
    by (intro power_of_ten_exact) simp
  then show ?thesis
    by simp
qed

theorem adjustForDecimals_exact_witness:
  "(2::nat) \<le> 18 \<and> (18::nat) \<le> 18
   \<and> adjustForDecimals (JsBigInt 525) 2 = 52500
   \<and> adjustForDecimals (JsNumber 525) 2 = 52500
   \<and> adjustForDecimals (JsBigInt 525) 18 = 525000000000000000000
   \<and> adjustForDecimals (JsNumber 0) 18 = 0"
  using adjustForDecimals_exact [of 2 525] adjustForDecimals_exact [of 18 525]
    adjustForDecimals_exact [of 18 0]
  by simp

text \<open>
  The bound on the decimals is needed, although not at 18: the base is exact up to 22
  decimals, and from 23 decimals on the result is the amount times the rounded base.  A
  fractional \<^verbatim>\<open>number\<close> is multiplied in doubles: for the double nearest to 2.675 at two
  decimals the product is the double 267.5, which \<^verbatim>\<open>Math.round\<close> takes to 268, while
  the exact product lies below 267.5.
\<close>

lemma adjustForDecimals_rounded_base:
  "adjustForDecimals (JsBigInt n) 22 = n * 10 ^ 22"
  "adjustForDecimals (JsBigInt n) 23 = n * 99999999999999991611392"
  "adjustForDecimals (JsBigInt 1) 23 \<noteq> 10 ^ 23"
  by (simp_all add: toNumber_def bitLength.simps Let_def)

lemma floor_rat_numeral:
  "\<lfloor>numeral a / numeral b :: rat\<rfloor> = numeral a div numeral b"
  using floor_divide_of_int_eq [of "numeral a" "numeral b", where ?'a = rat] by simp

lemma roundToDouble_fraction:
  "floorLog2 (107 / 40) = 1"
  "roundToDouble (107 / 40) = 3011782250804019 / 1125899906842624"
  "floorLog2 (75294556270100475 / 281474976710656) = 8"
  "roundToDouble (75294556270100475 / 281474976710656) = 535 / 2"
proof -
  show a: "floorLog2 (107 / 40) = 1"
    by (simp add: floorLog2_def bitLength.simps floor_rat_numeral)
  show "roundToDouble (107 / 40) = 3011782250804019 / 1125899906842624"
    by (simp add: roundToDouble_def a scaleBy_def Let_def floor_rat_numeral)
  show b: "floorLog2 (75294556270100475 / 281474976710656) = 8"
    by (simp add: floorLog2_def bitLength.simps floor_rat_numeral)
  show "roundToDouble (75294556270100475 / 281474976710656) = 535 / 2"
    by (simp add: roundToDouble_def b scaleBy_def Let_def floor_rat_numeral)
qed

lemma roundToDouble_integer:
  \<comment> \<open>On these integers the rounding of a rational gives what \<open>toNumber\<close> gives.\<close>
  "floorLog2 36028797018964100 = 55"
  "roundToDouble 36028797018964100 = 36028797018964096"
  "floorLog2 100000000000000000000000 = 76"
  "roundToDouble 100000000000000000000000 = 99999999999999991611392"
proof -
  show a: "floorLog2 36028797018964100 = 55"
    by (simp add: floorLog2_def bitLength.simps)
  show "roundToDouble 36028797018964100 = 36028797018964096"
    by (simp add: roundToDouble_def a scaleBy_def Let_def floor_rat_numeral)
  show b: "floorLog2 100000000000000000000000 = 76"
    by (simp add: floorLog2_def bitLength.simps)
  show "roundToDouble 100000000000000000000000 = 99999999999999991611392"
    by (simp add: roundToDouble_def b scaleBy_def Let_def floor_rat_numeral)
qed

lemma adjustForDecimals_fraction:
  "adjustForDecimals (JsNumber (3011782250804019 / 1125899906842624)) 2 = 268"
  "Math_round (3011782250804019 / 1125899906842624 * 100) = 267"
  by (simp_all add: roundToDouble_fraction Math_round_def Number_isInteger_def toNumber_exact
        floor_rat_numeral)

section \<open>Conservation in the ledger\<close>

lemma sum_list_map_update:
  fixes f :: "'a \<Rightarrow> int"
  shows "i < length xs \<Longrightarrow> sum_list (map f (xs[i := x])) = sum_list (map f xs) - f (xs ! i) + f x"
proof (induction xs arbitrary: i)
  case Nil
  then show ?case by simp
next
  case (Cons y ys)
  then show ?case by (cases i) auto
qed

lemma circulating_addHbar [simp]: "circulating (addHbar a d L) t = circulating L t"
proof (cases "a < length (accounts L)")
  case True
  then show ?thesis
    by (simp add: circulating_def addHbar_def sum_list_map_update)
next
  case False
  then show ?thesis by (simp add: circulating_def addHbar_def list_update_beyond)
qed

lemma circulating_addToken:
  "a < length (accounts L) \<Longrightarrow>
   circulating (addToken a t d L) t' = circulating L t' + (if t' = t then d else 0)"
  by (simp add: circulating_def addToken_def sum_list_map_update)

lemma length_accounts_addHbar [simp]: "length (accounts (addHbar a d L)) = length (accounts L)"
  by (simp add: addHbar_def)

lemma length_accounts_addToken [simp]: "length (accounts (addToken a t d L)) = length (accounts L)"
  by (simp add: addToken_def)

lemma tokens_addHbar [simp]: "tokens (addHbar a d L) = tokens L"
  by (simp add: addHbar_def)

lemma tokens_addToken [simp]: "tokens (addToken a t d L) = tokens L"
  by (simp add: addToken_def)

lemma length_accounts_applyEntry [simp]: "length (accounts (applyEntry e L)) = length (accounts L)"
  by (induction e L rule: applyEntry.induct) auto

lemma tokens_applyEntry [simp]: "tokens (applyEntry e L) = tokens L"
  by (induction e L rule: applyEntry.induct) auto

lemma entryExists_applyEntry [simp]: "entryExists (applyEntry e L) = entryExists L"
  by (rule ext)
     (auto simp: entryExists_def accountExists_def tokenExists_def split: prod.splits asset.splits)

lemma tokens_fold_applyEntry [simp]: "tokens (fold applyEntry es L) = tokens L"
  by (induction es arbitrary: L) auto

lemma length_accounts_fold_applyEntry [simp]:
  "length (accounts (fold applyEntry es L)) = length (accounts L)"
  by (induction es arbitrary: L) auto

lemma deltaSum_Cons:
  "deltaSum ((a, s', d) # es) s = (if s' = s then d else 0) + deltaSum es s"
  by (simp add: deltaSum_def)

lemma circulating_applyEntry:
  "entryExists L e \<Longrightarrow>
   circulating (applyEntry e L) t = circulating L t + deltaSum [e] (Token t)"
  by (induction e L rule: applyEntry.induct)
     (auto simp: entryExists_def accountExists_def circulating_addToken deltaSum_def)

lemma circulating_fold_applyEntry:
  "list_all (entryExists L) es \<Longrightarrow>
   circulating (fold applyEntry es L) t = circulating L t + deltaSum es (Token t)"
proof (induction es arbitrary: L)
  case Nil
  then show ?case by (simp add: deltaSum_def)
next
  case (Cons e es)
  obtain a s d where e: "e = (a, s, d)" by (cases e)
  from Cons.prems have ex: "entryExists L e" and rest: "list_all (entryExists L) es"
    by simp_all
  from rest have "list_all (entryExists (applyEntry e L)) es"
    by simp
  then have "circulating (fold applyEntry es (applyEntry e L)) t
             = circulating (applyEntry e L) t + deltaSum es (Token t)"
    by (rule Cons.IH)
  also have "circulating (applyEntry e L) t = circulating L t + deltaSum [e] (Token t)"
    using ex by (rule circulating_applyEntry)
  finally show ?case
    by (simp add: e deltaSum_def)
qed

lemma deltaSum_absent:
  "\<forall>(a, s', d) \<in> set es. s' \<noteq> s \<Longrightarrow> deltaSum es s = 0"
  by (induction es) (auto simp: deltaSum_def)

lemma balanced_every_asset:
  assumes "list_all (\<lambda>(a, s, d). deltaSum es s = 0) es"
  shows "deltaSum es s = 0"
proof (cases "\<exists>a d. (a, s, d) \<in> set es")
  case True
  with assms show ?thesis by (auto simp: list_all_iff)
next
  case False
  then have "\<forall>(a, s', d) \<in> set es. s' \<noteq> s" by auto
  then show ?thesis by (rule deltaSum_absent)
qed

lemma buildTransfer_Inr:
  "buildTransfer es = Inr p \<Longrightarrow>
   pendingEntries p = es \<and> mustSign p = signersOf es \<and> deltaSum es s = 0"
  by (auto simp: buildTransfer_def split: if_splits intro: balanced_every_asset)

lemma submit_Inr:
  assumes "submit p payer sigs L = Inr L'"
  shows "L' = addHbar payer (- transactionFee L) (fold applyEntry (pendingEntries p) L)
       \<and> list_all (entryExists L) (pendingEntries p)"
  using assms by (auto simp: submit_def Let_def split: if_splits)

lemma transfer_circulating:
  assumes "commit (Transfer es payer sigs) L = Inr L'"
  shows "tokens L' = tokens L \<and> circulating L' t = circulating L t
       \<and> length (accounts L') = length (accounts L)"
proof -
  from assms obtain p where p: "buildTransfer es = Inr p" and s: "submit p payer sigs L = Inr L'"
    by (auto split: sum.splits)
  from buildTransfer_Inr [OF p, of "Token t"]
  have pe: "pendingEntries p = es" and z: "deltaSum es (Token t) = 0" by simp_all
  from submit_Inr [OF s] pe
  have L': "L' = addHbar payer (- transactionFee L) (fold applyEntry es L)"
    and ex: "list_all (entryExists L) es" by simp_all
  from circulating_fold_applyEntry [OF ex, of t] z L' show ?thesis by simp
qed

lemma in_set_update:
  assumes "y \<in> set (xs[i := x])"
  shows "y \<in> set xs \<or> (i < length xs \<and> y = x)"
proof (cases "i < length xs")
  case True
  with assms set_update_subset_insert [of xs i x] show ?thesis by auto
next
  case False
  with assms show ?thesis by (simp add: list_update_beyond)
qed

lemma phantom_addToken:
  assumes "\<forall>acc \<in> set (accounts L). tokenBalance acc t' = 0" and "t \<noteq> t'"
  shows "\<forall>acc \<in> set (accounts (addToken a t d L)). tokenBalance acc t' = 0"
proof
  fix acc assume "acc \<in> set (accounts (addToken a t d L))"
  then have "acc \<in> set (accounts L) \<or> (a < length (accounts L) \<and> acc = (accounts L ! a)
       \<lparr>tokenBalance := (tokenBalance (accounts L ! a))(t := tokenBalance (accounts L ! a) t + d)\<rparr>)"
    by (auto simp: addToken_def dest: in_set_update)
  with assms show "tokenBalance acc t' = 0"
    by auto
qed

lemma phantom_addHbar:
  assumes "\<forall>acc \<in> set (accounts L). tokenBalance acc t' = 0"
  shows "\<forall>acc \<in> set (accounts (addHbar a d L)). tokenBalance acc t' = 0"
proof
  fix acc assume "acc \<in> set (accounts (addHbar a d L))"
  then have "acc \<in> set (accounts L) \<or> (a < length (accounts L)
        \<and> acc = (accounts L ! a)\<lparr>hbar := hbar (accounts L ! a) + d\<rparr>)"
    by (auto simp: addHbar_def dest: in_set_update)
  with assms show "tokenBalance acc t' = 0"
    by auto
qed

lemma phantom_fold_applyEntry:
  assumes "list_all (entryExists L) es"
    and "\<forall>acc \<in> set (accounts L). tokenBalance acc t' = 0"
    and "length (tokens L) \<le> t'"
  shows "\<forall>acc \<in> set (accounts (fold applyEntry es L)). tokenBalance acc t' = 0"
  using assms
proof (induction es arbitrary: L)
  case Nil
  then show ?case by simp
next
  case (Cons e es)
  obtain a s d where e: "e = (a, s, d)" by (cases e)
  have step: "\<forall>acc \<in> set (accounts (applyEntry e L)). tokenBalance acc t' = 0"
  proof (cases s)
    case Native
    with e Cons.prems(2) show ?thesis by (simp add: phantom_addHbar)
  next
    case (Token t)
    with e Cons.prems(1) have "t < length (tokens L)"
      by (simp add: entryExists_def tokenExists_def)
    with Cons.prems(3) have "t \<noteq> t'" by simp
    with e Token Cons.prems(2) show ?thesis by (simp add: phantom_addToken)
  qed
  from Cons.prems(1) have "list_all (entryExists (applyEntry e L)) es" by simp
  from Cons.IH [OF this step] Cons.prems(3) show ?case by simp
qed

lemma ledgerOK_emptyLedger: "ledgerOK (emptyLedger fee)"
  by (simp add: ledgerOK_def emptyLedger_def)

lemma ledgerOK_createAccount:
  assumes "ledgerOK L" and "createAccount h L = Inr (a, L')"
  shows "ledgerOK L'"
  using assms
  by (auto simp: ledgerOK_def createAccount_def circulating_def accountExists_def
           split: if_splits)

lemma ledgerOK_associate:
  assumes "ledgerOK L" and "associate a t L = Inr L'"
  shows "ledgerOK L'"
  using assms
  by (auto simp: ledgerOK_def associate_def circulating_def accountExists_def split: if_splits)

lemma ledgerOK_transfer:
  assumes ok: "ledgerOK L" and c: "commit (Transfer es payer sigs) L = Inr L'"
  shows "ledgerOK L'"
proof -
  from c obtain p where p: "buildTransfer es = Inr p" and s: "submit p payer sigs L = Inr L'"
    by (auto split: sum.splits)
  from buildTransfer_Inr [OF p] have pe: "pendingEntries p = es" by simp
  from submit_Inr [OF s] pe
  have L': "L' = addHbar payer (- transactionFee L) (fold applyEntry es L)"
    and ex: "list_all (entryExists L) es" by simp_all
  have tk: "tokens L' = tokens L" and len: "length (accounts L') = length (accounts L)"
    using transfer_circulating [OF c] by simp_all
  have circ: "circulating L' t = circulating L t" for t
    using transfer_circulating [OF c] by simp
  have ph: "\<forall>acc \<in> set (accounts L'). tokenBalance acc t' = 0" if "length (tokens L) \<le> t'" for t'
  proof -
    from ok that have "\<forall>acc \<in> set (accounts L). tokenBalance acc t' = 0"
      by (simp add: ledgerOK_def)
    from phantom_fold_applyEntry [OF ex this that] show ?thesis
      unfolding L' by (rule phantom_addHbar)
  qed
  from ok show ?thesis
    unfolding ledgerOK_def accountExists_def tk len using circ ph by simp
qed


lemma sum_list_all_zero:
  fixes f :: "'a \<Rightarrow> int"
  shows "\<forall>x \<in> set xs. f x = 0 \<Longrightarrow> sum_list (map f xs) = 0"
  by (induction xs) auto

lemma circulating_phantom:
  "\<forall>acc \<in> set (accounts L). tokenBalance acc t = 0 \<Longrightarrow> circulating L t = 0"
  unfolding circulating_def by (rule sum_list_all_zero)

lemma ledgerOK_createToken:
  assumes ok: "ledgerOK L" and c: "createToken cfg L = Inr (tid, L')"
  shows "ledgerOK L'"
proof -
  let ?tr = "cfgTreasury cfg"
  let ?acc = "(accounts L ! ?tr)\<lparr>tokenBalance :=
                 (tokenBalance (accounts L ! ?tr))(length (tokens L) := initialSupply cfg)\<rparr>"
  from c have ex: "?tr < length (accounts L)"
    and tid: "tid = length (tokens L)"
    and acc': "accounts L' = (accounts L)[?tr := ?acc]"
    and tk': "tokens L' = tokens L @ [\<lparr>tokenName = cfgName cfg, tokenSymbol = cfgSymbol cfg,
                  decimalPrecision = cfgDecimals cfg, supplyPolicy = cfgSupplyPolicy cfg,
                  treasury = cfgTreasury cfg, mintAuthority = cfgMintAuthority cfg,
                  totalSupply = initialSupply cfg\<rparr>]"
    by (auto simp: createToken_def Let_def accountExists_def split: if_splits)
  from ok have zero: "\<forall>acc \<in> set (accounts L). tokenBalance acc t = 0"
    if "length (tokens L) \<le> t" for t
    using that by (simp add: ledgerOK_def)
  have circ: "circulating L' t =
        (if t = length (tokens L) then initialSupply cfg else circulating L t)" for t
  proof (cases "t = length (tokens L)")
    case True
    from zero [of t] True have "circulating L t = 0" "tokenBalance (accounts L ! ?tr) t = 0"
      using ex by (simp_all add: circulating_phantom)
    with True ex show ?thesis
      by (simp add: circulating_def acc' sum_list_map_update)
  next
    case False
    with ex show ?thesis
      by (simp add: circulating_def acc' sum_list_map_update)
  qed
  have old: "circulating L' t = totalSupply (tokens L' ! t) \<and> accountExists L' (treasury (tokens L' ! t))"
    if "t < length (tokens L')" for t
  proof (cases "t = length (tokens L)")
    case True
    with ex show ?thesis by (simp add: circ tk' accountExists_def acc')
  next
    case False
    with that have "t < length (tokens L)" by (simp add: tk')
    with ok False show ?thesis
      by (simp add: circ tk' accountExists_def acc' nth_append ledgerOK_def)
  qed
  have new: "\<forall>acc \<in> set (accounts L'). tokenBalance acc t = 0" if "length (tokens L') \<le> t" for t
  proof
    fix acc assume "acc \<in> set (accounts L')"
    then have "acc \<in> set (accounts L) \<or> acc = ?acc"
      by (auto simp: acc' dest: in_set_update)
    moreover from that have "length (tokens L) \<le> t" "t \<noteq> length (tokens L)"
      by (simp_all add: tk')
    ultimately show "tokenBalance acc t = 0"
      using zero [of t] ex by auto
  qed
  from old new show ?thesis
    unfolding ledgerOK_def by blast
qed

lemma ledgerOK_mint:
  assumes ok: "ledgerOK L" and c: "mint t amount L = Inr L'"
  shows "ledgerOK L'"
proof -
  let ?tk = "tokens L ! t"
  let ?M = "L\<lparr>tokens := (tokens L)[t := ?tk\<lparr>totalSupply := totalSupply ?tk + amount\<rparr>]\<rparr>"
  from c have t: "t < length (tokens L)"
    and L': "L' = addToken (treasury ?tk) t amount ?M"
    by (auto simp: mint_def Let_def tokenExists_def split: if_splits)
  from ok t have tr: "treasury ?tk < length (accounts L)"
    by (simp add: ledgerOK_def accountExists_def)
  have accM: "accounts ?M = accounts L" by simp
  have circ: "circulating L' t' = circulating L t' + (if t' = t then amount else 0)" for t'
    using tr by (simp add: L' circulating_addToken) (simp add: circulating_def)
  have tk': "tokens L' = (tokens L)[t := ?tk\<lparr>totalSupply := totalSupply ?tk + amount\<rparr>]"
    by (simp add: L')
  have len: "length (accounts L') = length (accounts L)"
    by (simp add: L')
  have old: "circulating L' t' = totalSupply (tokens L' ! t') \<and> accountExists L' (treasury (tokens L' ! t'))"
    if "t' < length (tokens L')" for t'
  proof (cases "t' = t")
    case True
    with ok t show ?thesis
      by (simp add: circ tk' accountExists_def len ledgerOK_def)
  next
    case False
    with ok that show ?thesis
      by (simp add: circ tk' accountExists_def len ledgerOK_def)
  qed
  have new: "\<forall>acc \<in> set (accounts L'). tokenBalance acc t' = 0" if "length (tokens L') \<le> t'" for t'
  proof -
    from that t have ne: "t \<noteq> t'" and le: "length (tokens L) \<le> t'" by (simp_all add: tk')
    from ok le have "\<forall>acc \<in> set (accounts ?M). tokenBalance acc t' = 0"
      by (simp add: ledgerOK_def)
    from phantom_addToken [OF this ne] show ?thesis by (simp add: L')
  qed
  from old new show ?thesis
    unfolding ledgerOK_def by blast
qed

lemma ledgerOK_perform: "ledgerOK L \<Longrightarrow> ledgerOK (perform opn L)"
proof (cases "commit opn L")
  case (Inl e)
  assume "ledgerOK L"
  with Inl show ?thesis by (simp add: perform_def stateAfter_def)
next
  case (Inr L')
  assume ok: "ledgerOK L"
  have "ledgerOK L'"
  proof (cases opn)
    case (CreateAccount h)
    with Inr obtain a where "createAccount h L = Inr (a, L')"
      by (cases "createAccount h L") auto
    with ok show ?thesis by (rule ledgerOK_createAccount)
  next
    case (CreateToken cfg)
    with Inr obtain tid where "createToken cfg L = Inr (tid, L')"
      by (cases "createToken cfg L") auto
    with ok show ?thesis by (rule ledgerOK_createToken)
  next
    case (Mint t amount)
    with Inr ok show ?thesis by (auto intro: ledgerOK_mint)
  next
    case (Associate a t)
    with Inr ok show ?thesis by (auto intro: ledgerOK_associate)
  next
    case (Transfer es payer sigs)
    with Inr ok show ?thesis by (auto intro: ledgerOK_transfer simp del: commit.simps)
  qed
  with Inr show ?thesis by (simp add: perform_def stateAfter_def)
qed

lemma ledgerOK_fold_perform: "ledgerOK L \<Longrightarrow> ledgerOK (fold perform ops L)"
  by (induction ops arbitrary: L) (auto intro: ledgerOK_perform)

section \<open>Evaluation of the example scenarios\<close>

lemmas ledger_eval =
  perform_def stateAfter_def createAccount_def createToken_def associate_def mint_def
  buildTransfer_def submit_def requiredSigners_def signersOf_def deltaSum_def
  entryExists_def receiverAssociated_def balanceNonNegative_def accountExists_def
  tokenExists_def addHbar_def addToken_def emptyLedger_def circulating_def Let_def
  getHbarBalance_def ledgerTokenBalance_def balanceQuery_def execute_def

lemmas transaction_eval =
  require_def newTransferTransaction_def addTokenTransfer_def freezeWith_def sign_def

lemma toNumber_0 [simp]: "toNumber 0 = 0"
  by (simp add: toNumber_exact)

lemma endToEnd_ledger:
  "fold perform endToEnd (emptyLedger 1) =
     \<lparr>accounts = [\<lparr>hbar = 999, tokenBalance = (\<lambda>t. 0)(0 := 300)\<rparr>,
                  \<lparr>hbar = 0, tokenBalance = (\<lambda>t. 0)(0 := 200)\<rparr>],
      tokens = [\<lparr>tokenName = ''Test Token'', tokenSymbol = ''HTT'', decimalPrecision = 2,
                 supplyPolicy = Finite 500, treasury = 0, mintAuthority = None,
                 totalSupply = 500\<rparr>],
      associations = {(1, 0)}, transactionFee = 1\<rparr>"
  by (simp add: endToEnd_def fixedConfig_def ledger_eval)

lemma fourAccounts_eq:
  "fourAccounts =
     \<lparr>accounts = [\<lparr>hbar = 1000, tokenBalance = (\<lambda>t. 0)(0 := 50000)\<rparr>,
                  \<lparr>hbar = 10, tokenBalance = (\<lambda>t. 0)\<rparr>,
                  \<lparr>hbar = 0, tokenBalance = (\<lambda>t. 0)\<rparr>,
                  \<lparr>hbar = 0, tokenBalance = (\<lambda>t. 0)\<rparr>],
      tokens = [\<lparr>tokenName = ''Test Token'', tokenSymbol = ''HTT'', decimalPrecision = 2,
                 supplyPolicy = Finite 50000, treasury = 0, mintAuthority = None,
                 totalSupply = 50000\<rparr>],
      associations = {}, transactionFee = 1\<rparr>"
  by (simp add: fourAccounts_def fixedConfig_def ledger_eval)

lemma associatedSecond_eq: "associatedSecond = fourAccounts\<lparr>associations := {(1, 0)}\<rparr>"
  by (simp add: associatedSecond_def fourAccounts_eq perform_def stateAfter_def associate_def)

section \<open>The supply of a token\<close>

text \<open>
  C1.  After any sequence of ledger operations (account creation, token creation, mint,
  association, transfer submission; an operation that fails leaves the ledger as it was),
  started from the empty ledger, the balances of every token add up to its total supply.
  An operation other than token creation and mint changes neither the total supply of any
  token nor the sum of its balances.
\<close>

theorem supply_conserved:
  "(\<forall>t < length (tokens (fold perform ops (emptyLedger fee))).
       circulating (fold perform ops (emptyLedger fee)) t
       = totalSupply (tokens (fold perform ops (emptyLedger fee)) ! t))
   \<and> (\<not> issuesUnits opn \<longrightarrow>
        tokens (perform opn L) = tokens L
        \<and> (\<forall>t. circulating (perform opn L) t = circulating L t))"
proof
  have "ledgerOK (fold perform ops (emptyLedger fee))"
    by (rule ledgerOK_fold_perform) (rule ledgerOK_emptyLedger)
  then show "\<forall>t < length (tokens (fold perform ops (emptyLedger fee))).
       circulating (fold perform ops (emptyLedger fee)) t
       = totalSupply (tokens (fold perform ops (emptyLedger fee)) ! t)"
    by (simp add: ledgerOK_def)
next
  show "\<not> issuesUnits opn \<longrightarrow>
        tokens (perform opn L) = tokens L
        \<and> (\<forall>t. circulating (perform opn L) t = circulating L t)"
  proof (cases "commit opn L")
    case (Inl e)
    then show ?thesis by (simp add: perform_def stateAfter_def)
  next
    case (Inr L')
    then have pf: "perform opn L = L'" by (simp add: perform_def stateAfter_def)
    show ?thesis
    proof (cases opn)
      case (CreateAccount h)
      with Inr show ?thesis
        unfolding pf
        by (auto simp: createAccount_def circulating_def split: if_splits)
    next
      case (CreateToken cfg)
      then show ?thesis by (simp add: issuesUnits_def)
    next
      case (Mint t amount)
      then show ?thesis by (simp add: issuesUnits_def)
    next
      case (Associate a t)
      with Inr show ?thesis
        unfolding pf
        by (auto simp: associate_def circulating_def split: if_splits)
    next
      case (Transfer es payer sigs)
      with Inr have "commit (Transfer es payer sigs) L = Inr L'" by simp
      from transfer_circulating [OF this] show ?thesis
        unfolding pf by simp
    qed
  qed
qed

theorem supply_conserved_witness:
  "0 < length (tokens (fold perform endToEnd (emptyLedger 1)))
   \<and> circulating (fold perform endToEnd (emptyLedger 1)) 0 = 500
   \<and> totalSupply (tokens (fold perform endToEnd (emptyLedger 1)) ! 0) = 500
   \<and> tokenBalance (accounts (fold perform endToEnd (emptyLedger 1)) ! 0) 0 = 300
   \<and> tokenBalance (accounts (fold perform endToEnd (emptyLedger 1)) ! 1) 0 = 200
   \<and> \<not> issuesUnits (Associate 1 0)
   \<and> tokens (perform (Associate 1 0) fourAccounts) = tokens fourAccounts
   \<and> circulating (perform (Associate 1 0) fourAccounts) 0 = 50000"
proof -
  have c: "circulating fourAccounts 0 = 50000"
    by (simp add: fourAccounts_eq circulating_def)
  from supply_conserved [of endToEnd 1 "Associate 1 0" fourAccounts] c
  show ?thesis by (simp add: endToEnd_ledger issuesUnits_def)
qed

section \<open>Signatures and the mint authority\<close>

text \<open>
  C4.  For a pending transfer built from an entry list, a submission fails with
  \<open>MissingSignature\<close> whenever an account with a negative entry is neither the payer nor
  among the signatures, and the ledger after the failed submission is the ledger before it.
  The required signers are exactly the accounts with a negative entry, and
  \<open>MissingSignature\<close> is the outcome exactly when one of them is neither the payer nor
  among the signatures.
\<close>

theorem submit_missing_signature:
  assumes "buildTransfer es = Inr p"
    and "(a, s, d) \<in> set es" and "d < 0" and "a \<noteq> payer" and "a \<notin> sigs"
  shows "submit p payer sigs L = Inl MissingSignature
       \<and> stateAfter L (submit p payer sigs L) = L
       \<and> requiredSigners p = {a'. \<exists>s' d'. (a', s', d') \<in> set es \<and> d' < 0}
       \<and> (submit p payer' sigs' L' = Inl MissingSignature
            \<longleftrightarrow> \<not> requiredSigners p \<subseteq> sigs' \<union> {payer'})"
proof -
  from buildTransfer_Inr [OF assms(1)] have ms: "requiredSigners p = signersOf es"
    by (simp add: requiredSigners_def)
  have so: "signersOf es = {a'. \<exists>s' d'. (a', s', d') \<in> set es \<and> d' < 0}"
    by (force simp: signersOf_def)
  from assms(2-5) have "\<not> requiredSigners p \<subseteq> sigs \<union> {payer}"
    unfolding ms so by blast
  then have "submit p payer sigs L = Inl MissingSignature"
    by (simp add: submit_def)
  moreover have "submit p payer' sigs' L' = Inl MissingSignature
            \<longleftrightarrow> \<not> requiredSigners p \<subseteq> sigs' \<union> {payer'}"
    by (simp add: submit_def Let_def)
  ultimately show ?thesis
    using ms so by (simp add: stateAfter_def)
qed

theorem submit_missing_signature_witness:
  "buildTransfer [(0, Token 0, - 100), (1, Token 0, 100)]
     = Inr \<lparr>pendingEntries = [(0, Token 0, - 100), (1, Token 0, 100)], mustSign = {0}\<rparr>
   \<and> (0, Token 0, - 100) \<in> set [(0, Token 0, - 100), (1, Token 0, 100)]
   \<and> (0::nat) \<noteq> 1 \<and> (0::nat) \<notin> {}
   \<and> submit \<lparr>pendingEntries = [(0, Token 0, - 100), (1, Token 0, 100)], mustSign = {0}\<rparr>
        1 {} associatedSecond = Inl MissingSignature
   \<and> requiredSigners \<lparr>pendingEntries = [(0, Token 0, - 100), (1, Token 0, 100)], mustSign = {0}\<rparr>
       = {0}"
proof -
  have b: "buildTransfer [(0, Token 0, - 100), (1, Token 0, 100)]
     = Inr \<lparr>pendingEntries = [(0, Token 0, - 100), (1, Token 0, 100)], mustSign = {0}\<rparr>"
    by (simp add: buildTransfer_def deltaSum_def signersOf_def)
  have s: "submit \<lparr>pendingEntries = [(0, Token 0, - 100), (1, Token 0, 100)], mustSign = {0}\<rparr>
        1 {} associatedSecond = Inl MissingSignature"
    by (rule submit_missing_signature
          [OF b, of 0 "Token 0" "- 100" 1 "{}", THEN conjunct1]) simp_all
  from b s show ?thesis by (simp add: requiredSigners_def)
qed

text \<open>
  C5.  For every token without a mint authority and every amount, a mint fails with
  \<open>NoMintAuthority\<close> and the ledger after the attempt, with the token's total supply and
  every balance, is the ledger before it; the step "An attempt to mint tokens fails" passes
  on such a token.
\<close>

theorem mint_without_authority:
  assumes "tokenExists L t" and "mintAuthority (tokens L ! t) = None"
  shows "mint t amount L = Inl NoMintAuthority
       \<and> stateAfter L (mint t amount L) = L
       \<and> perform (Mint t amount) L = L
       \<and> (tokenId c = Some t \<and> account1Id c = Some a1 \<and> tokenDecimals c = Some dec \<longrightarrow>
            mintFailsStep (c, L) = Inr (c, L))"
  using assms
  by (simp add: mint_def Let_def stateAfter_def perform_def mintFailsStep_def require_def)

theorem mint_without_authority_witness:
  "tokenExists fourAccounts 0
   \<and> mintAuthority (tokens fourAccounts ! 0) = None
   \<and> mint 0 100 fourAccounts = Inl NoMintAuthority
   \<and> perform (Mint 0 100) fourAccounts = fourAccounts
   \<and> mintFailsStep (fullContext, fourAccounts) = Inr (fullContext, fourAccounts)"
proof -
  have a: "tokenExists fourAccounts 0" and b: "mintAuthority (tokens fourAccounts ! 0) = None"
    by (simp_all add: fourAccounts_eq tokenExists_def)
  from mint_without_authority [OF a b, of 100 fullContext 0 2] a b
  show ?thesis by (simp add: fullContext_def)
qed

section \<open>The helpers of the step definitions\<close>

lemma getTokenBalance_total: "\<exists>n. getTokenBalance a t L = Inr n"
  by (simp add: getTokenBalance_def split: sum.splits option.splits)

text \<open>
  C7 (as amended).  The helper \<^verbatim>\<open>getTokenBalance\<close> never fails: it returns 0 when the
  account is associated with the token and has never been funded, and it returns 0 as well
  when no association exists and the account is not the treasury, and when the balance
  query itself fails.
\<close>

theorem getTokenBalance_never_fails:
  "(\<exists>n. getTokenBalance a t L = Inr n)
   \<and> (ledgerTokenBalance a t L = Inr 0 \<longrightarrow> getTokenBalance a t L = Inr 0)
   \<and> (ledgerTokenBalance a t L = Inl NotAssociated \<longrightarrow> getTokenBalance a t L = Inr 0)
   \<and> (balanceQuery a L = Inl e \<longrightarrow> getTokenBalance a t L = Inr 0)"
  by (auto simp: getTokenBalance_def balanceQuery_def split: sum.splits option.splits)

theorem getTokenBalance_never_fails_witness:
  "ledgerTokenBalance 1 0 associatedSecond = Inr 0
   \<and> getTokenBalance 1 0 associatedSecond = Inr 0
   \<and> ledgerTokenBalance 2 0 associatedSecond = Inl NotAssociated
   \<and> getTokenBalance 2 0 associatedSecond = Inr 0
   \<and> balanceQuery 7 associatedSecond = Inl NotFound
   \<and> getTokenBalance 7 0 associatedSecond = Inr 0"
proof -
  have a: "ledgerTokenBalance 1 0 associatedSecond = Inr 0"
    and b: "ledgerTokenBalance 2 0 associatedSecond = Inl NotAssociated"
    and c: "balanceQuery 7 associatedSecond = Inl NotFound"
    by (simp_all add: associatedSecond_eq fourAccounts_eq ledger_eval)
  from getTokenBalance_never_fails [of 1 0 associatedSecond]
    getTokenBalance_never_fails [of 2 0 associatedSecond]
    getTokenBalance_never_fails [of 7 0 associatedSecond NotFound]
    a b c
  show ?thesis by simp
qed

text \<open>
  C7, counterexample.  The claim as stated fails: the second account of the example is
  neither associated with the token nor its treasury, the Ledger State Store answers
  \<open>NotAssociated\<close>, and the helper returns 0.
\<close>

theorem getTokenBalance_counterexample:
  "ledgerTokenBalance 1 0 fourAccounts = Inl NotAssociated
   \<and> treasury (tokens fourAccounts ! 0) \<noteq> 1
   \<and> (1, 0) \<notin> associations fourAccounts
   \<and> getTokenBalance 1 0 fourAccounts = Inr 0"
  by (simp add: fourAccounts_eq getTokenBalance_def ledger_eval)

text \<open>
  The call sites of \<^verbatim>\<open>associateToken\<close> in
  \<^verbatim>\<open>src/features/step_definitions/token-service.ts\<close> send the association and catch its
  error.  For every pair that is already associated, the ledger answers with
  \<open>AlreadyAssociated\<close> and stays as it was, and the handler turns that answer into a success
  on the unchanged ledger.  Every other error passes through the handler.
\<close>

lemma reassociation_is_tolerated:
  assumes "(a, t) \<in> associations L"
  shows "associate a t L = Inl AlreadyAssociated
       \<and> stateAfter L (associate a t L) = L
       \<and> ignoreAlreadyAssociated L (associateTokenNow a t L) = Inr L
       \<and> (e \<noteq> AlreadyAssociated \<longrightarrow> ignoreAlreadyAssociated L (Inl e) = Inl e)"
  using assms
  by (simp add: associate_def stateAfter_def ignoreAlreadyAssociated_def associateTokenNow_def)

lemma association_is_sent:
  "(a, t) \<notin> associations L \<Longrightarrow>
   ignoreAlreadyAssociated L (associateTokenNow a t L)
     = Inr (L\<lparr>associations := insert (a, t) (associations L)\<rparr>)"
  by (simp add: associate_def ignoreAlreadyAssociated_def associateTokenNow_def)

text \<open>
  The helper \<^verbatim>\<open>associateToken\<close> of the step definitions with a deferred submission
  checks the balance first and takes an answer for an existing association.  The balance
  check is made with \<^verbatim>\<open>getTokenBalance\<close>, which never fails, so the helper returns at
  once for every pair, associated or not: the lines that send the association and catch
  \<^verbatim>\<open>TOKEN_ALREADY_ASSOCIATED_TO_ACCOUNT\<close> are never reached.
\<close>

lemma associateToken_returns_at_once: "associateToken a t L = Inr L"
proof -
  obtain n where "getTokenBalance a t L = Inr n"
    using getTokenBalance_total by blast
  then show ?thesis by (simp add: associateToken_def)
qed

text \<open>
  C6.  The helper \<^verbatim>\<open>associateToken\<close> of the step definitions with a deferred submission
  departs from the claim on the ledger of the four accounts, where no account is associated
  with the token.  For the third account the helper returns with success and the pair is
  still not associated, where the call site of the other file associates it.  For an
  account that the ledger does not know, the balance query fails with \<open>NotFound\<close> and the
  helper returns with success all the same: the error does not propagate.  For the pair
  that is associated, the helper returns without sending the association that the ledger
  would answer with \<open>AlreadyAssociated\<close>: nothing is signalled and nothing is caught.
\<close>

theorem associateToken_sends_nothing:
  "(2, 0) \<notin> associations fourAccounts
   \<and> associateToken 2 0 fourAccounts = Inr fourAccounts
   \<and> ignoreAlreadyAssociated fourAccounts (associateTokenNow 2 0 fourAccounts)
       = Inr (fourAccounts\<lparr>associations := {(2, 0)}\<rparr>)
   \<and> balanceQuery 7 fourAccounts = Inl NotFound
   \<and> associateToken 7 0 fourAccounts = Inr fourAccounts
   \<and> (1, 0) \<in> associations associatedSecond
   \<and> associate 1 0 associatedSecond = Inl AlreadyAssociated
   \<and> associateToken 1 0 associatedSecond = Inr associatedSecond"
  by (simp add: associatedSecond_eq fourAccounts_eq associateToken_def getTokenBalance_def
        ignoreAlreadyAssociated_def associateTokenNow_def ledger_eval toNumber_exact)

section \<open>Building a transfer\<close>











section \<open>The balance check of the multi-party steps\<close>

lemma toNumber_safe: "\<bar>n\<bar> < 2 ^ 52 \<Longrightarrow> toNumber n = n \<and> toNumber (- n) = - n"
  by (simp add: toNumber_exact)

lemma toNumber_safe_sum:
  "\<bar>m\<bar> < 2 ^ 52 \<Longrightarrow> \<bar>n\<bar> < 2 ^ 52 \<Longrightarrow> toNumber (m + n) = m + n"
  by (rule toNumber_exact) simp

lemma deltaSum_four:
  "deltaSum [(a1, Token t, d1), (a2, Token t, d2), (a3, Token t, d3), (a4, Token t, d4)] (Token t)
   = d1 + d2 + d3 + d4"
  by (simp add: deltaSum_def)

text \<open>
  With the four accounts, the token and its decimals (at most 22) in the context, and every
  amount below \<open>2^52\<close> units in magnitude, both multi-party steps store exactly the requested
  entries when the deltas of the token sum to zero, and fail with \<open>Unbalanced\<close> otherwise.
\<close>

lemma multi_party_balance_check:
  assumes "account1Id c = Some a1" and "account2Id c = Some a2" and "account3Id c = Some a3"
    and "account4Id c = Some a4" and "tokenId c = Some t" and "tokenDecimals c = Some dec"
    and "\<bar>o1 * 10 ^ dec\<bar> < 2 ^ 52" and "\<bar>o2 * 10 ^ dec\<bar> < 2 ^ 52"
    and "\<bar>i3 * 10 ^ dec\<bar> < 2 ^ 52" and "\<bar>i4 * 10 ^ dec\<bar> < 2 ^ 52"
    and "dec \<le> 22"
  shows "createMultiPartyStep o1 o2 i3 i4 (c, L) =
           (let es = [(a1, Token t, - (o1 * 10 ^ dec)), (a2, Token t, - (o2 * 10 ^ dec)),
                      (a3, Token t, i3 * 10 ^ dec), (a4, Token t, i4 * 10 ^ dec)]
            in if deltaSum es (Token t) = 0
               then Inr (c\<lparr>createdTransaction :=
                            Some \<lparr>tokenTransfers = es, frozen = True, signatures = []\<rparr>\<rparr>, L)
               else Inl Unbalanced)"
    and "createMultiPartyEqualStep o1 i3 i4 (c, L) =
           (let es = [(a1, Token t, - (o1 * 10 ^ dec)), (a2, Token t, - (o1 * 10 ^ dec)),
                      (a3, Token t, i3 * 10 ^ dec), (a4, Token t, i4 * 10 ^ dec)]
            in if deltaSum es (Token t) = 0
               then Inr (c\<lparr>createdTransaction :=
                            Some \<lparr>tokenTransfers = es, frozen = True, signatures = []\<rparr>\<rparr>, L)
               else Inl Unbalanced)"
proof -
  note exact = toNumber_safe [OF assms(7)] toNumber_safe [OF assms(8)]
    toNumber_safe [OF assms(9)] toNumber_safe [OF assms(10)]
    toNumber_safe_sum [OF assms(9) assms(10)] power_of_ten_exact [OF assms(11)]
  show "createMultiPartyStep o1 o2 i3 i4 (c, L) =
           (let es = [(a1, Token t, - (o1 * 10 ^ dec)), (a2, Token t, - (o2 * 10 ^ dec)),
                      (a3, Token t, i3 * 10 ^ dec), (a4, Token t, i4 * 10 ^ dec)]
            in if deltaSum es (Token t) = 0
               then Inr (c\<lparr>createdTransaction :=
                            Some \<lparr>tokenTransfers = es, frozen = True, signatures = []\<rparr>\<rparr>, L)
               else Inl Unbalanced)"
    using assms(1-6)
    by (simp add: createMultiPartyStep_def require_def Let_def exact deltaSum_four
          addTokenTransfer_def newTransferTransaction_def freezeWith_def)
  show "createMultiPartyEqualStep o1 i3 i4 (c, L) =
           (let es = [(a1, Token t, - (o1 * 10 ^ dec)), (a2, Token t, - (o1 * 10 ^ dec)),
                      (a3, Token t, i3 * 10 ^ dec), (a4, Token t, i4 * 10 ^ dec)]
            in if deltaSum es (Token t) = 0
               then Inr (c\<lparr>createdTransaction :=
                            Some \<lparr>tokenTransfers = es, frozen = True, signatures = []\<rparr>\<rparr>, L)
               else Inl Unbalanced)"
    using assms(1-6)
    by (simp add: createMultiPartyEqualStep_def require_def Let_def exact deltaSum_four
          addTokenTransfer_def newTransferTransaction_def freezeWith_def)
qed

lemma multi_party_balance_check_example:
  "createMultiPartyStep 10 20 5 25 (fullContext, fourAccounts) =
     Inr (fullContext\<lparr>createdTransaction := Some
           \<lparr>tokenTransfers = [(0, Token 0, - 1000), (1, Token 0, - 2000),
                              (2, Token 0, 500), (3, Token 0, 2500)],
            frozen = True, signatures = []\<rparr>\<rparr>, fourAccounts)
   \<and> createMultiPartyEqualStep 10 5 25 (fullContext, fourAccounts) = Inl Unbalanced"
  using multi_party_balance_check [of fullContext 0 1 2 3 0 2 10 20 5 25 fourAccounts]
  by (simp add: fullContext_def deltaSum_four)

lemma toNumber_rounds:
  "toNumber 36028797018964100 = 36028797018964096"
  "toNumber (- 36028797018964200) = - 36028797018964200"
  "toNumber 1801439850948198400 = 1801439850948198400"
  "toNumber (- 1801439850948198400) = - 1801439850948198400"
  "toNumber 3602879701896396800 = 3602879701896396800"
  "toNumber 3602879701896396900 = 3602879701896396800"
  "toNumber 100 = 100"
  by (simp_all add: toNumber_def bitLength.simps Let_def)

text \<open>
  Beyond that magnitude the step with separate amounts compares the exact units, and its
  stored entries are their conversions to doubles: balanced amounts can be stored as
  entries that do not sum to zero.
\<close>

lemma multi_party_stores_rounded_entries:
  "createMultiPartyStep 360287970189642 0 360287970189641 1 (fullContext, fourAccounts) =
     Inr (fullContext\<lparr>createdTransaction := Some
           \<lparr>tokenTransfers = [(0, Token 0, - 36028797018964200), (1, Token 0, 0),
                              (2, Token 0, 36028797018964096), (3, Token 0, 100)],
            frozen = True, signatures = []\<rparr>\<rparr>, fourAccounts)
   \<and> deltaSum [(0, Token 0, - 36028797018964200), (1, Token 0, 0),
                (2, Token 0, 36028797018964096), (3, Token 0, 100)] (Token 0) = - 4"
  by (simp add: fullContext_def createMultiPartyStep_def transaction_eval toNumber_rounds
        deltaSum_four)

text \<open>
  C2.  The step that takes one amount for both senders makes its balance check on doubles.
  For \<open>2^54\<close> tokens out of each of the first and second account, \<open>2^55\<close> tokens into
  the third and 1 token into the fourth, at two decimals, the check passes and the
  transaction is stored, although the deltas of the token sum to 100 units; the Transfer
  Engine's validation rejects the same entry list as \<open>Unbalanced\<close>.
\<close>

theorem equal_split_accepts_unbalanced:
  "createMultiPartyEqualStep 18014398509481984 36028797018963968 1 (fullContext, fourAccounts) =
     Inr (fullContext\<lparr>createdTransaction := Some
           \<lparr>tokenTransfers =
              [(0, Token 0, - 1801439850948198400), (1, Token 0, - 1801439850948198400),
               (2, Token 0, 3602879701896396800), (3, Token 0, 100)],
            frozen = True, signatures = []\<rparr>\<rparr>, fourAccounts)
   \<and> deltaSum [(0, Token 0, - 1801439850948198400), (1, Token 0, - 1801439850948198400),
                (2, Token 0, 3602879701896396800), (3, Token 0, 100)] (Token 0) = 100
   \<and> buildTransfer [(0, Token 0, - 1801439850948198400), (1, Token 0, - 1801439850948198400),
                     (2, Token 0, 3602879701896396800), (3, Token 0, 100)] = Inl Unbalanced"
  by (simp add: fullContext_def createMultiPartyEqualStep_def transaction_eval toNumber_rounds
        deltaSum_four buildTransfer_def)

section \<open>Submitting the stored transaction\<close>

text \<open>
  The keys of the signature map are node identifiers, so the key of the second account is
  never found among them.  The submit step therefore never takes its recipient-pays branch
  and never records a balance, and it signs for the second account whenever that account
  sends tokens.
\<close>

lemma account2KeyFound_never: "\<not> account2KeyFound c tx"
  by (auto simp: account2KeyFound_def getSignaturesKeys_def list_ex_iff split: option.splits)

lemma submitStep_eq:
  "submitStep (c, L) =
     (case createdTransaction c of
        None \<Rightarrow> Inl (ContextMissing, (c, L))
      | Some tx \<Rightarrow>
          (case account1Id c of
             None \<Rightarrow> Inl (ContextMissing, (c, L))
           | Some payer \<Rightarrow>
               (case (case account2Id c of
                        Some a2 \<Rightarrow> if account2Sends c tx then sign a2 tx else Inr tx
                      | None \<Rightarrow> Inr tx) of
                  Inl e \<Rightarrow> Inl (e, (c, L))
                | Inr signedTx \<Rightarrow>
                    (case execute signedTx payer L of
                       Inl e \<Rightarrow> Inl (e, (c, L))
                     | Inr L' \<Rightarrow> Inr (c\<lparr>createdTransaction := None\<rparr>, L')))))"
  by (simp add: submitStep_def account2KeyFound_never Let_def split: option.splits)





lemma secondFunded_eq:
  "secondFunded =
     associatedSecond\<lparr>accounts :=
       [\<lparr>hbar = 999, tokenBalance = (\<lambda>t. 0)(0 := 49000)\<rparr>,
        \<lparr>hbar = 10, tokenBalance = (\<lambda>t. 0)(0 := 1000)\<rparr>,
        \<lparr>hbar = 0, tokenBalance = (\<lambda>t. 0)\<rparr>,
        \<lparr>hbar = 0, tokenBalance = (\<lambda>t. 0)\<rparr>]\<rparr>"
  by (simp add: secondFunded_def associatedSecond_eq fourAccounts_eq ledger_eval)



text \<open>
  The submit step signs for the second account only.  When the third account is the one that
  sends (the step written with \<^verbatim>\<open>{int}\<close> accepts a negative amount), the ledger
  refuses the submission for the missing signature and the step fails with that error.
\<close>

lemma submit_without_third_signature:
  "createMultiPartyStep 0 0 (- 5) 5 (fullContext, associatedSecond) =
     Inr (fullContext\<lparr>createdTransaction := Some
           \<lparr>tokenTransfers = [(0, Token 0, 0), (1, Token 0, 0),
                              (2, Token 0, - 500), (3, Token 0, 500)],
            frozen = True, signatures = []\<rparr>\<rparr>, associatedSecond)
   \<and> (\<exists>w. submitStep (fullContext\<lparr>createdTransaction := Some
           \<lparr>tokenTransfers = [(0, Token 0, 0), (1, Token 0, 0),
                              (2, Token 0, - 500), (3, Token 0, 500)],
            frozen = True, signatures = []\<rparr>\<rparr>, associatedSecond) = Inl (MissingSignature, w))"
  by (simp add: fullContext_def associatedSecond_eq fourAccounts_eq createMultiPartyStep_def
        submitStep_eq account2Sends_def transaction_eval ledger_eval toNumber_exact)

text \<open>
  The recipient-pays scenario of the feature file: the second account builds, freezes and
  signs a transfer of 5 HTT to the first account, the first account submits it, and the fee
  check follows.  The submission succeeds and the first account pays for it, but no balance
  was recorded, so the fee check fails with \<open>NoSnapshot\<close>.
\<close>

lemma firstRepaid_eq:
  "firstRepaid =
     associatedSecond\<lparr>accounts :=
       [\<lparr>hbar = 998, tokenBalance = (\<lambda>t. 0)(0 := 49500)\<rparr>,
        \<lparr>hbar = 10, tokenBalance = (\<lambda>t. 0)(0 := 500)\<rparr>,
        \<lparr>hbar = 0, tokenBalance = (\<lambda>t. 0)\<rparr>,
        \<lparr>hbar = 0, tokenBalance = (\<lambda>t. 0)\<rparr>]\<rparr>"
  by (simp add: firstRepaid_def secondFunded_eq associatedSecond_eq fourAccounts_eq ledger_eval)

lemma recipient_pays_stored:
  "createRecipientPaysStep 5 (fullContext, secondFunded) = Inr (recipientPaysStored, secondFunded)"
  by (simp add: recipientPaysStored_def fullContext_def createRecipientPaysStep_def
        transaction_eval toNumber_exact)

lemma recipient_pays_accepted:
  "submitStep (recipientPaysStored, secondFunded) = Inr (fullContext, firstRepaid)"
  by (simp add: firstRepaid_eq secondFunded_eq recipientPaysStored_def fullContext_def
        associatedSecond_eq fourAccounts_eq submitStep_eq account2Sends_def transaction_eval
        ledger_eval)

lemma recipient_pays_records_no_balance:
  "runSteps [unchangedOnError (createRecipientPaysStep 5), submitStep, unchangedOnError feePaidStep]
     (fullContext, secondFunded) = Inl (NoSnapshot, (fullContext, firstRepaid))
   \<and> hbar (accounts secondFunded ! 0) = 999 \<and> hbar (accounts firstRepaid ! 0) = 998"
  by (simp add: recipient_pays_stored recipient_pays_accepted unchangedOnError_def)
     (simp add: firstRepaid_eq secondFunded_eq fullContext_def feePaidStep_def require_def)





section \<open>The fee check\<close>

text \<open>
  C9 (as amended).  In the step definitions with a deferred submission, once the first
  account is in the context, the fee check fails with \<open>NoSnapshot\<close> whenever no balance was
  recorded before, and otherwise, the balance query answering, it passes exactly when the
  payer's current HBAR balance is strictly lower than the recorded one (and clears the
  record).  The step of the same name in \<^verbatim>\<open>src/features/step_definitions/token-service.ts\<close>
  keeps no record: it passes exactly when the current balance is positive.
\<close>

theorem feePaidStep_checks:
  assumes "account1Id c = Some a1"
  shows "(balanceBefore c = None \<longrightarrow> feePaidStep (c, L) = Inl NoSnapshot)
       \<and> (balanceBefore c = Some before \<and> balanceQuery a1 L = Inr b \<longrightarrow>
            feePaidStep (c, L) =
              (if hbars b < before then Inr (c\<lparr>balanceBefore := None\<rparr>, L)
               else Inl AssertionFailed))
       \<and> (balanceQuery (firstAccountId m) L = Inr b' \<longrightarrow>
            positiveBalanceStep m (mc, L) =
              (if 0 < hbars b' then Inr (mc, L) else Inl AssertionFailed))"
  using assms
  by (simp add: feePaidStep_def positiveBalanceStep_def require_def)

theorem feePaidStep_checks_witness:
  "account1Id fullContext = Some 0
   \<and> balanceBefore fullContext = None
   \<and> feePaidStep (fullContext, fourAccounts) = Inl NoSnapshot
   \<and> feePaidStep (fullContext\<lparr>balanceBefore := Some 1001\<rparr>, fourAccounts)
       = Inr (fullContext, fourAccounts)
   \<and> feePaidStep (fullContext\<lparr>balanceBefore := Some 1000\<rparr>, fourAccounts)
       = Inl AssertionFailed
   \<and> positiveBalanceStep moduleFour (moduleStart, fourAccounts) = Inr (moduleStart, fourAccounts)"
proof -
  have q: "balanceQuery 0 fourAccounts = Inr \<lparr>hbars = 1000,
             tokenMap = (\<lambda>t. case ledgerTokenBalance 0 t fourAccounts of
                                Inl e \<Rightarrow> None | Inr b \<Rightarrow> Some b)\<rparr>"
    by (simp add: fourAccounts_eq balanceQuery_def getHbarBalance_def accountExists_def)
  have a: "account1Id fullContext = Some 0" "balanceBefore fullContext = None"
    by (simp_all add: fullContext_def)
  have a': "account1Id (fullContext\<lparr>balanceBefore := Some x\<rparr>) = Some 0" for x
    by (simp add: fullContext_def)
  have r: "fullContext\<lparr>balanceBefore := Some x, balanceBefore := None\<rparr> = fullContext" for x
    by (simp add: fullContext_def)
  from feePaidStep_checks [OF a(1), where L = fourAccounts]
    feePaidStep_checks [OF a' [of 1001], where L = fourAccounts and before = 1001
      and m = moduleFour and mc = moduleStart]
    feePaidStep_checks [OF a' [of 1000], where L = fourAccounts and before = 1000]
    q a r
  show ?thesis by (simp add: moduleFour_def)
qed

text \<open>
  C9, counterexample.  The claim as stated fails: the step of
  \<^verbatim>\<open>src/features/step_definitions/token-service.ts\<close> passes although no balance was ever recorded, and the step with the record fails on the
  missing account, not with \<open>NoSnapshot\<close>, when neither the account nor a balance is in the
  context.
\<close>

theorem feePaidStep_counterexample:
  "positiveBalanceStep moduleFour (moduleStart, fourAccounts) = Inr (moduleStart, fourAccounts)
   \<and> balanceBefore (fullContext\<lparr>account1Id := None\<rparr>) = None
   \<and> feePaidStep (fullContext\<lparr>account1Id := None\<rparr>, fourAccounts) = Inl ContextMissing"
  by (simp add: fourAccounts_eq fullContext_def moduleFour_def moduleStart_def feePaidStep_def
        positiveBalanceStep_def require_def balanceQuery_def getHbarBalance_def
        accountExists_def)

end
